theory Spec2Isabelle
  imports Complex_Main
begin

section \<open>The shipment ledger (models/Shipment.js)\<close>

text \<open>
  Dates are milliseconds since the epoch (\<open>int\<close>). A field that a document may lack is
  an \<open>option\<close>. An ObjectId is carried as its hexadecimal string, which is what its
  \<open>toString()\<close> and its cast to a String path give.
\<close>

type_synonym date = int

datatype objectid = ObjectId string

fun hexString :: "objectid \<Rightarrow> string" where
  "hexString (ObjectId h) = h"

datatype status =
  OrderPlaced | InTransit | OutForDelivery | Delivered | Returned | Cancelled | Exception

record coordinates =
  latitude :: "real option"
  longitude :: "real option"

record agent =
  agent_name :: "string option"
  agent_id :: "string option"
  agent_contact :: "string option"

text \<open>
  \<open>trackingEventSchema\<close>. The same record is the \<open>eventData\<close> argument of
  \<open>addTrackingEvent\<close>, where \<open>status\<close> and \<open>timestamp\<close> may be absent; an absent
  \<open>location\<close> or \<open>description\<close> is the empty string, which the \<open>required\<close> validator
  of a String path rejects just as it rejects an absent value.
\<close>

record trackingEvent =
  ev_status :: "status option"
  ev_location :: string
  ev_description :: string
  ev_timestamp :: "date option"
  ev_coordinates :: "coordinates option"
  ev_agent :: "agent option"

record address =
  street :: string
  city :: string
  state :: string
  pincode :: string
  country :: string

record party =
  party_name :: string
  party_email :: "string option"
  party_phone :: string
  party_address :: address

record package =
  pkg_description :: string
  pkg_weight :: real
  pkg_length :: real
  pkg_width :: real
  pkg_height :: real
  pkg_value :: real
  pkg_category :: string
  pkg_isFragile :: bool
  pkg_requiresSignature :: bool

datatype service_type = Hyperlocal | SameDay | NextDay | Standard | Economy | Express

record insurance =
  isInsured :: bool
  coverage :: real
  premium :: real

record service =
  svc_type :: service_type
  svc_priority :: string
  svc_cost :: real
  estimatedDelivery :: "date option"
  svc_insurance :: insurance

text \<open>
  \<open>shipmentSchema\<close>. The last two fields are not stored: they are Mongoose's change
  tracking of the in-memory document, \<open>isNew\<close> and the mark that \<open>isModified('currentStatus')\<close>
  reads. A document hydrated by a query has both \<open>False\<close>.
\<close>

record shipment =
  shipment_id :: objectid
  trackingNumber :: "string option"
  sender :: party
  recipient :: party
  package :: package
  service :: service
  currentStatus :: status
  progress :: int
  tracking :: "trackingEvent list"
  paymentStatus :: string
  paymentMethod :: string
  deliveryAttempts :: int
  specialInstructions :: "string option"
  internalNotes :: "string option"
  assignedAgent :: "objectid option"
  createdBy :: objectid
  isActive :: bool
  deliveredAt :: "date option"
  returnedAt :: "date option"
  cancelledAt :: "date option"
  cancellationReason :: "string option"
  createdAt :: date
  isNew :: bool
  modifiedCurrentStatus :: bool

type_synonym collection = "shipment list"

datatype error =
  ValidationError | DuplicateKeyError | DocumentNotFoundError | ParallelSaveError

subsection \<open>Strings\<close>

text \<open>
  \<open>String.prototype.toUpperCase\<close> and \<open>toLowerCase\<close> on the ASCII letters; every other
  character is left as it is.
\<close>

definition upper_char :: "char \<Rightarrow> char" where
  "upper_char c =
     (if (97::nat) \<le> of_char c \<and> of_char c \<le> (122::nat)
      then char_of (of_char c - (32::nat)) else c)"

definition lower_char :: "char \<Rightarrow> char" where
  "lower_char c =
     (if (65::nat) \<le> of_char c \<and> of_char c \<le> (90::nat)
      then char_of (of_char c + (32::nat)) else c)"

definition toUpperCase :: "string \<Rightarrow> string" where
  "toUpperCase s = map upper_char s"

definition toLowerCase :: "string \<Rightarrow> string" where
  "toLowerCase s = map lower_char s"

definition is_digit :: "char \<Rightarrow> bool" where
  "is_digit c = ((48::nat) \<le> of_char c \<and> of_char c \<le> (57::nat))"

text \<open>The pattern \<open>/^IND\d{9}$/\<close> of the \<open>trackingNumber\<close> path.\<close>

definition matches_IND9 :: "string \<Rightarrow> bool" where
  "matches_IND9 s = (length s = 12 \<and> take 3 s = ''IND'' \<and> list_all is_digit (drop 3 s))"

text \<open>The spec's pattern \<open>^[A-Z]{3}\d{9}$\<close>.\<close>

definition is_upper :: "char \<Rightarrow> bool" where
  "is_upper c = ((65::nat) \<le> of_char c \<and> of_char c \<le> (90::nat))"

definition matches_AZ3_d9 :: "string \<Rightarrow> bool" where
  "matches_AZ3_d9 s =
     (length s = 12 \<and> list_all is_upper (take 3 s) \<and> list_all is_digit (drop 3 s))"

text \<open>Decimal rendering of a non-negative integer, as a template literal renders it.\<close>

definition digit_char :: "nat \<Rightarrow> char" where
  "digit_char d = char_of (48 + d)"

fun decimal :: "nat \<Rightarrow> string" where
  "decimal n = (if n < 10 then [digit_char n] else decimal (n div 10) @ [digit_char (n mod 10)])"

declare decimal.simps [simp del]

subsection \<open>Saving a document\<close>

text \<open>
  Validation, as far as the ledger's paths go: the required \<open>trackingNumber\<close> and its
  pattern, the bounds of \<open>progress\<close> and \<open>deliveryAttempts\<close>, and the required paths of
  every tracking event. The validators of the sender, recipient, package and service
  blocks are not part of the model, so a save that succeeds here is one that passes the
  ledger's validators.
\<close>

definition validEvent :: "trackingEvent \<Rightarrow> bool" where
  "validEvent e = (ev_status e \<noteq> None \<and> ev_location e \<noteq> [] \<and> ev_description e \<noteq> [])"

definition validateSync :: "shipment \<Rightarrow> bool" where
  "validateSync d =
     ((case trackingNumber d of None \<Rightarrow> False | Some tn \<Rightarrow> matches_IND9 tn)
      \<and> 0 \<le> progress d \<and> progress d \<le> 100
      \<and> deliveryAttempts d \<le> 3
      \<and> list_all validEvent (tracking d))"

text \<open>
  \<open>Math.random()\<close> returns a binary64 value in \<open>[0, 1)\<close>. Every such value is
  \<open>numer / 2 ^ shift\<close> with \<open>numer < 2 ^ 53\<close>, \<open>numer < 2 ^ shift\<close> and \<open>shift \<le> 1074\<close>, and
  is carried as that pair.
\<close>

record double =
  numer :: nat
  shift :: nat

definition isRandomDouble :: "double \<Rightarrow> bool" where
  "isRandomDouble r = (numer r < 2 ^ 53 \<and> numer r < 2 ^ shift r \<and> shift r \<le> 1074)"

type_synonym draws = "nat \<Rightarrow> double"

text \<open>
  \<open>Math.floor(r * c)\<close> for a draw \<open>r\<close> and an integer constant \<open>c\<close> that binary64 holds
  exactly: the product of two binary64 values is the exact product \<open>numer * c / 2 ^ shift\<close>
  rounded to 53 significant bits, ties to the even significand. \<open>bitlen\<close> is the
  number of bits of the exact numerator, \<open>roundHalfEven n s\<close> is \<open>n / 2 ^ s\<close> rounded to
  the nearest integer, ties to even. (With \<open>shift \<le> 1074\<close> the rounded product is never
  below the grid of the subnormal numbers, so no second rounding occurs.)
\<close>

fun bitlen :: "nat \<Rightarrow> nat" where
  "bitlen n = (if n = 0 then 0 else Suc (bitlen (n div 2)))"

declare bitlen.simps [simp del]

definition roundHalfEven :: "nat \<Rightarrow> nat \<Rightarrow> nat" where
  "roundHalfEven n s =
     (let q = n div 2 ^ s; r = n mod 2 ^ s
      in if 2 * r < 2 ^ s then q
         else if 2 ^ s < 2 * r then q + 1
         else if even q then q else q + 1)"

definition floorProduct :: "double \<Rightarrow> nat \<Rightarrow> nat" where
  "floorProduct r c =
     (let n = numer r * c; s = bitlen n - 53
      in (roundHalfEven n s * 2 ^ s) div 2 ^ shift r)"

text \<open>
  The tracking-number hook. \<open>rnd\<close> is the stream of the values of \<open>Math.random()\<close>, of
  which the loop reads the draws \<open>i\<close>, \<open>i + 1\<close>, ...; \<open>randomNum\<close> is an integer below
  \<open>2 ^ 53\<close>, so the sum is exact and the template literal renders its decimal digits;
  \<open>findOne({ trackingNumber })\<close> looks at every stored shipment, active or not. The loop
  has no bound, so it is a partial function: \<open>None\<close> is a loop that never ends.
\<close>

definition randomNum :: "double \<Rightarrow> nat" where
  "randomNum r = floorProduct r 900000000 + 100000000"

definition candidate :: "double \<Rightarrow> string" where
  "candidate r = ''IND'' @ decimal (randomNum r)"

definition existsTrackingNumber :: "collection \<Rightarrow> string \<Rightarrow> bool" where
  "existsTrackingNumber db tn = list_ex (\<lambda>s. trackingNumber s = Some tn) db"

partial_function (option) generateTrackingNumber ::
  "draws \<Rightarrow> collection \<Rightarrow> nat \<Rightarrow> string option" where
  "generateTrackingNumber rnd db i =
     (if existsTrackingNumber db (candidate (rnd i))
      then generateTrackingNumber rnd db (Suc i)
      else Some (candidate (rnd i)))"

definition preSaveTrackingNumber ::
  "draws \<Rightarrow> collection \<Rightarrow> shipment \<Rightarrow> shipment option" where
  "preSaveTrackingNumber rnd db d =
     (if isNew d \<and> (trackingNumber d = None \<or> trackingNumber d = Some [])
      then map_option (\<lambda>tn. d\<lparr>trackingNumber := Some tn\<rparr>) (generateTrackingNumber rnd db 0)
      else Some d)"

text \<open>
  The progress hook. Every status is a key of \<open>statusProgress\<close>, and the entry of
  \<open>Exception\<close> is the document's own progress.
\<close>

definition statusProgress :: "int \<Rightarrow> status \<Rightarrow> int option" where
  "statusProgress p st =
     (case st of
        OrderPlaced \<Rightarrow> Some 10
      | InTransit \<Rightarrow> Some 50
      | OutForDelivery \<Rightarrow> Some 80
      | Delivered \<Rightarrow> Some 100
      | Returned \<Rightarrow> Some 100
      | Cancelled \<Rightarrow> Some 0
      | Exception \<Rightarrow> Some p)"

definition preSaveProgress :: "shipment \<Rightarrow> shipment" where
  "preSaveProgress d =
     (if modifiedCurrentStatus d then
        (case statusProgress (progress d) (currentStatus d) of
           Some p \<Rightarrow> d\<lparr>progress := p\<rparr>
         | None \<Rightarrow> d)
      else d)"

text \<open>
  Writing the document. A new document is inserted, unless the unique index on
  \<open>trackingNumber\<close> (or the one on \<open>_id\<close>) refuses it; an existing one replaces the
  stored document of its \<open>_id\<close>. Afterwards the change tracking is reset.
\<close>

definition stored :: "shipment \<Rightarrow> shipment" where
  "stored d = d\<lparr>isNew := False, modifiedCurrentStatus := False\<rparr>"

definition replaceById :: "shipment \<Rightarrow> collection \<Rightarrow> collection" where
  "replaceById d db = map (\<lambda>s. if shipment_id s = shipment_id d then d else s) db"

definition persist ::
  "collection \<Rightarrow> shipment \<Rightarrow> (error + unit) \<times> shipment \<times> collection" where
  "persist db d =
     (if isNew d then
        (if list_ex (\<lambda>s. trackingNumber s = trackingNumber d \<or> shipment_id s = shipment_id d) db
         then (Inl DuplicateKeyError, d, db)
         else (Inr (), stored d, db @ [stored d]))
      else
        (if list_ex (\<lambda>s. shipment_id s = shipment_id d) db
         then (Inr (), stored d, replaceById (stored d) db)
         else (Inl DocumentNotFoundError, d, db)))"

text \<open>
  \<open>save()\<close>: Mongoose validates first (its own pre-save hook is put before the schema's),
  then runs the schema's two hooks in the order of their declaration, then writes. The
  result is the outcome, the in-memory document and the collection.
\<close>

definition save ::
  "draws \<Rightarrow> collection \<Rightarrow> shipment \<Rightarrow>
     ((error + unit) \<times> shipment \<times> collection) option" where
  "save rnd db d =
     (if \<not> validateSync d then Some (Inl ValidationError, d, db)
      else
        (case preSaveTrackingNumber rnd db d of
           None \<Rightarrow> None
         | Some d1 \<Rightarrow> Some (persist db (preSaveProgress d1))))"

subsection \<open>Methods\<close>

text \<open>
  \<open>addTrackingEvent(eventData)\<close>. The clock is read twice: \<open>t_push\<close> is the \<open>new Date()\<close>
  of the pushed event, \<open>t_stamp\<close> the one of the terminal timestamp. Assigning
  \<open>currentStatus\<close> marks the path as modified when the document is new or the value
  differs from the one it had.
\<close>

definition orNow :: "date option \<Rightarrow> date \<Rightarrow> date" where
  "orNow ts now = (case ts of Some t \<Rightarrow> t | None \<Rightarrow> now)"

definition setCurrentStatus :: "status \<Rightarrow> shipment \<Rightarrow> shipment" where
  "setCurrentStatus st d =
     d\<lparr>currentStatus := st,
       modifiedCurrentStatus := (modifiedCurrentStatus d \<or> isNew d \<or> st \<noteq> currentStatus d)\<rparr>"

definition pushEvent :: "date \<Rightarrow> trackingEvent \<Rightarrow> shipment \<Rightarrow> shipment" where
  "pushEvent t_push e d =
     d\<lparr>tracking := tracking d @ [e\<lparr>ev_timestamp := Some (orNow (ev_timestamp e) t_push)\<rparr>]\<rparr>"

definition stampTerminal :: "date \<Rightarrow> trackingEvent \<Rightarrow> shipment \<Rightarrow> shipment" where
  "stampTerminal t_stamp e d =
     (if ev_status e = Some Delivered then d\<lparr>deliveredAt := Some (orNow (ev_timestamp e) t_stamp)\<rparr>
      else if ev_status e = Some Returned then d\<lparr>returnedAt := Some (orNow (ev_timestamp e) t_stamp)\<rparr>
      else if ev_status e = Some Cancelled then
        d\<lparr>cancelledAt := Some (orNow (ev_timestamp e) t_stamp),
          cancellationReason := Some (ev_description e)\<rparr>
      else d)"

definition applyEvent :: "date \<Rightarrow> date \<Rightarrow> trackingEvent \<Rightarrow> shipment \<Rightarrow> shipment" where
  "applyEvent t_push t_stamp e d =
     stampTerminal t_stamp e
       ((case ev_status e of Some st \<Rightarrow> setCurrentStatus st | None \<Rightarrow> id)
          (pushEvent t_push e d))"

definition addTrackingEvent ::
  "draws \<Rightarrow> collection \<Rightarrow> date \<Rightarrow> date \<Rightarrow> trackingEvent \<Rightarrow> shipment \<Rightarrow>
     ((error + unit) \<times> shipment \<times> collection) option" where
  "addTrackingEvent rnd db t_push t_stamp e d = save rnd db (applyEvent t_push t_stamp e d)"

text \<open>
  \<open>incrementDeliveryAttempts()\<close>. From the third attempt on it calls \<open>addTrackingEvent\<close>,
  whose \<open>save()\<close> is not awaited, and then \<open>save()\<close> again: Mongoose rejects a second
  \<open>save()\<close> of a document whose first one is still in flight with a ParallelSaveError, so
  the state is the one the first \<open>save()\<close> leaves and the outcome is that error.
\<close>

definition maxAttemptsEvent :: trackingEvent where
  "maxAttemptsEvent =
     \<lparr>ev_status = Some Exception,
      ev_location = ''Delivery Center'',
      ev_description = ''Maximum delivery attempts reached. Package being returned to sender.'',
      ev_timestamp = None,
      ev_coordinates = None,
      ev_agent = None\<rparr>"

definition incrementDeliveryAttempts ::
  "draws \<Rightarrow> collection \<Rightarrow> date \<Rightarrow> date \<Rightarrow> shipment \<Rightarrow>
     ((error + unit) \<times> shipment \<times> collection) option" where
  "incrementDeliveryAttempts rnd db t_push t_stamp d =
     (let d1 = d\<lparr>deliveryAttempts := deliveryAttempts d + 1\<rparr> in
      if deliveryAttempts d1 \<ge> 3 then
        (case addTrackingEvent rnd db t_push t_stamp maxAttemptsEvent d1 of
           None \<Rightarrow> None
         | Some (r, d2, db2) \<Rightarrow> Some (Inl ParallelSaveError, d2, db2))
      else save rnd db d1)"

subsection \<open>Queries\<close>

text \<open>A document that a query returns is hydrated: its change tracking is clean.\<close>

definition hydrate :: "shipment \<Rightarrow> shipment" where
  "hydrate d = d\<lparr>isNew := False, modifiedCurrentStatus := False\<rparr>"

definition findOne :: "(shipment \<Rightarrow> bool) \<Rightarrow> collection \<Rightarrow> shipment option" where
  "findOne q db = map_option hydrate (find q db)"

definition findById :: "objectid \<Rightarrow> collection \<Rightarrow> shipment option" where
  "findById oid db = findOne (\<lambda>s. shipment_id s = oid) db"

text \<open>
  \<open>findByUser(userId)\<close>: all three alternatives of \<open>$or\<close> compare with \<open>userId\<close>, the
  two email paths with its cast to a string. \<open>sort({ createdAt: -1 })\<close> is a stable sort
  on the negated creation time.
\<close>

definition findByUserQuery :: "objectid \<Rightarrow> shipment \<Rightarrow> bool" where
  "findByUserQuery userId s =
     ((createdBy s = userId
       \<or> party_email (sender s) = Some (hexString userId)
       \<or> party_email (recipient s) = Some (hexString userId))
      \<and> isActive s)"

definition newestFirst :: "collection \<Rightarrow> collection" where
  "newestFirst db = sort_key (\<lambda>s. - createdAt s) db"

definition findByUser :: "objectid \<Rightarrow> collection \<Rightarrow> shipment list" where
  "findByUser userId db = map hydrate (newestFirst (filter (findByUserQuery userId) db))"

section \<open>Accounts (models/User.js)\<close>

record user =
  user_id :: objectid
  fullName :: string
  email :: string
  phone :: string
  password :: string
  role :: string
  user_isActive :: bool
  loginAttempts :: nat
  lockUntil :: "date option"
  lastLogin :: "date option"

text \<open>
  \<open>loginAttempts\<close> has the default 0: a stored account whose counter was removed by
  \<open>$unset\<close> reads as 0, and \<open>$inc\<close> counts from 0 there, so the removed counter is the
  value 0. Registration sets no counter and the model's methods only add 1, set 1 or
  remove it, so the counter is a natural number.
\<close>

datatype auth_error = InvalidLoginCredentials | AccountTemporarilyLocked

definition isLocked :: "date \<Rightarrow> user \<Rightarrow> bool" where
  "isLocked now u = (case lockUntil u of None \<Rightarrow> False | Some l \<Rightarrow> l > now)"

text \<open>\<open>this.updateOne(update)\<close> changes the stored account of the document's \<open>_id\<close>.\<close>

fun updateOne :: "objectid \<Rightarrow> (user \<Rightarrow> user) \<Rightarrow> user list \<Rightarrow> user list" where
  "updateOne uid f [] = []"
| "updateOne uid f (x # xs) = (if user_id x = uid then f x # xs else x # updateOne uid f xs)"

definition maxAttempts :: nat where
  "maxAttempts = 5"

definition lockTime :: int where
  "lockTime = 2 * 60 * 60 * 1000"

text \<open>
  \<open>incLoginAttempts()\<close>. \<open>Date.now()\<close> is read up to three times: \<open>t_expired\<close> in the test
  for an expired lock, \<open>t_locked\<close> in \<open>isLocked\<close>, \<open>t_set\<close> in the new \<open>lockUntil\<close>. The
  decisions read the in-memory document \<open>u\<close>; \<open>$inc\<close> adds to the stored counter.
\<close>

definition incLoginAttempts ::
  "date \<Rightarrow> date \<Rightarrow> date \<Rightarrow> user \<Rightarrow> user list \<Rightarrow> user list" where
  "incLoginAttempts t_expired t_locked t_set u us =
     (if (case lockUntil u of None \<Rightarrow> False | Some l \<Rightarrow> l < t_expired) then
        updateOne (user_id u) (\<lambda>x. x\<lparr>lockUntil := None, loginAttempts := 1\<rparr>) us
      else if loginAttempts u + 1 \<ge> maxAttempts \<and> \<not> isLocked t_locked u then
        updateOne (user_id u)
          (\<lambda>x. x\<lparr>loginAttempts := loginAttempts x + 1, lockUntil := Some (t_set + lockTime)\<rparr>) us
      else
        updateOne (user_id u) (\<lambda>x. x\<lparr>loginAttempts := loginAttempts x + 1\<rparr>) us)"

definition resetLoginAttempts :: "user \<Rightarrow> user list \<Rightarrow> user list" where
  "resetLoginAttempts u us =
     updateOne (user_id u) (\<lambda>x. x\<lparr>loginAttempts := 0, lockUntil := None\<rparr>) us"

definition updateLastLogin :: "date \<Rightarrow> user \<Rightarrow> user list \<Rightarrow> user list" where
  "updateLastLogin now u us = updateOne (user_id u) (\<lambda>x. x\<lparr>lastLogin := Some now\<rparr>) us"

text \<open>The five clock reads of one \<open>findByCredentials\<close> call, in the order of the code.\<close>

record clock =
  at_lockCheck :: date
  at_expired :: date
  at_locked :: date
  at_set :: date
  at_lastLogin :: date

text \<open>
  \<open>findByCredentials(email, password)\<close>. \<open>compare\<close> stands for \<open>bcrypt.compare\<close>
  (candidate, stored hash). The result is the thrown error or the returned document, and
  the stored accounts.
\<close>

definition findByCredentials ::
  "(string \<Rightarrow> string \<Rightarrow> bool) \<Rightarrow> clock \<Rightarrow> user list \<Rightarrow> string \<Rightarrow> string \<Rightarrow>
     (auth_error + user) \<times> user list" where
  "findByCredentials compare clk us mail pw =
     (case find (\<lambda>u. email u = toLowerCase mail \<and> user_isActive u) us of
        None \<Rightarrow> (Inl InvalidLoginCredentials, us)
      | Some u \<Rightarrow>
          if isLocked (at_lockCheck clk) u then (Inl AccountTemporarilyLocked, us)
          else if \<not> compare pw (password u) then
            (Inl InvalidLoginCredentials,
             incLoginAttempts (at_expired clk) (at_locked clk) (at_set clk) u us)
          else
            (Inr u,
             updateLastLogin (at_lastLogin clk) u
               (if loginAttempts u > 0 then resetLoginAttempts u us else us)))"

definition findUserById :: "objectid \<Rightarrow> user list \<Rightarrow> user option" where
  "findUserById uid us = find (\<lambda>x. user_id x = uid) us"

section \<open>Lookup by tracking number\<close>

text \<open>
  \<open>populate(path, 'fullName email phone')\<close> replaces a reference by the selected fields
  of the account it names, or by null when there is none.
\<close>

record userSummary =
  sum_id :: objectid
  sum_fullName :: string
  sum_email :: string
  sum_phone :: string

record populatedShipment =
  pop_doc :: shipment
  pop_createdBy :: "userSummary option"
  pop_assignedAgent :: "userSummary option"

definition populateUser :: "user list \<Rightarrow> objectid \<Rightarrow> userSummary option" where
  "populateUser us oid =
     map_option
       (\<lambda>u. \<lparr>sum_id = user_id u, sum_fullName = fullName u, sum_email = email u,
             sum_phone = phone u\<rparr>)
       (findUserById oid us)"

definition populate :: "user list \<Rightarrow> shipment \<Rightarrow> populatedShipment" where
  "populate us d =
     \<lparr>pop_doc = d,
      pop_createdBy = populateUser us (createdBy d),
      pop_assignedAgent =
        (case assignedAgent d of None \<Rightarrow> None | Some a \<Rightarrow> populateUser us a)\<rparr>"

definition findByTrackingNumber ::
  "user list \<Rightarrow> collection \<Rightarrow> string \<Rightarrow> populatedShipment option" where
  "findByTrackingNumber us db tn =
     map_option (populate us)
       (findOne (\<lambda>s. trackingNumber s = Some (toUpperCase tn) \<and> isActive s) db)"

section \<open>Routes (routes/shipments.js)\<close>

subsection \<open>GET /track/:trackingNumber\<close>

definition isDelayed :: "date \<Rightarrow> shipment \<Rightarrow> bool" where
  "isDelayed now d =
     (if currentStatus d = Delivered then False
      else (case estimatedDelivery (service d) of None \<Rightarrow> False | Some t \<Rightarrow> now > t))"

record publicEvent =
  pe_status :: "status option"
  pe_location :: string
  pe_description :: string
  pe_timestamp :: "date option"

record publicView =
  pv_trackingNumber :: "string option"
  pv_currentStatus :: status
  pv_progress :: int
  pv_tracking :: "publicEvent list"
  pv_estimatedDelivery :: "date option"
  pv_isDelayed :: bool
  pv_serviceType :: service_type

text \<open>
  The authenticated answer, without \<open>deliveryWindow\<close> and \<open>updatedAt\<close> (local calendar
  arithmetic and the timestamps option are outside the model).
\<close>

record fullView =
  fv_trackingNumber :: "string option"
  fv_currentStatus :: status
  fv_progress :: int
  fv_sender :: party
  fv_recipient :: party
  fv_package :: package
  fv_service :: service
  fv_tracking :: "trackingEvent list"
  fv_estimatedDelivery :: "date option"
  fv_isDelayed :: bool
  fv_deliveryAttempts :: int
  fv_createdAt :: date

datatype trackResponse =
  TrackBadRequest400 | TrackNotFound404 | TrackFull fullView | TrackPublic publicView

definition publicEventOf :: "trackingEvent \<Rightarrow> publicEvent" where
  "publicEventOf e =
     \<lparr>pe_status = ev_status e, pe_location = ev_location e,
      pe_description = ev_description e, pe_timestamp = ev_timestamp e\<rparr>"

definition publicViewOf :: "date \<Rightarrow> shipment \<Rightarrow> publicView" where
  "publicViewOf now d =
     \<lparr>pv_trackingNumber = trackingNumber d,
      pv_currentStatus = currentStatus d,
      pv_progress = progress d,
      pv_tracking = map publicEventOf (tracking d),
      pv_estimatedDelivery = estimatedDelivery (service d),
      pv_isDelayed = isDelayed now d,
      pv_serviceType = svc_type (service d)\<rparr>"

definition fullViewOf :: "date \<Rightarrow> shipment \<Rightarrow> fullView" where
  "fullViewOf now d =
     \<lparr>fv_trackingNumber = trackingNumber d,
      fv_currentStatus = currentStatus d,
      fv_progress = progress d,
      fv_sender = sender d,
      fv_recipient = recipient d,
      fv_package = package d,
      fv_service = service d,
      fv_tracking = tracking d,
      fv_estimatedDelivery = estimatedDelivery (service d),
      fv_isDelayed = isDelayed now d,
      fv_deliveryAttempts = deliveryAttempts d,
      fv_createdAt = createdAt d\<rparr>"

text \<open>\<open>reqUser\<close> is \<open>req.user\<close> as \<open>optionalAuth\<close> leaves it: \<open>None\<close> for an anonymous caller.\<close>

definition trackShipment ::
  "user list \<Rightarrow> collection \<Rightarrow> date \<Rightarrow> user option \<Rightarrow> string \<Rightarrow> trackResponse" where
  "trackShipment us db now reqUser tn =
     (if \<not> matches_IND9 tn then TrackBadRequest400
      else
        (case findByTrackingNumber us db tn of
           None \<Rightarrow> TrackNotFound404
         | Some p \<Rightarrow>
             (case reqUser of
                Some u \<Rightarrow> TrackFull (fullViewOf now (pop_doc p))
              | None \<Rightarrow> TrackPublic (publicViewOf now (pop_doc p)))))"

subsection \<open>POST /api/shipments\<close>

text \<open>
  \<open>req.body\<close>, as far as the schema has a path for it: the handler spreads the whole body
  into the constructor, so every path of the schema can come from the client, the
  tracking number and the tracking events among them.
\<close>

record shipmentBody =
  b_trackingNumber :: "string option"
  b_sender :: party
  b_recipient :: party
  b_package :: package
  b_service :: service
  b_currentStatus :: "status option"
  b_progress :: "int option"
  b_tracking :: "trackingEvent list"
  b_paymentStatus :: "string option"
  b_paymentMethod :: "string option"
  b_deliveryAttempts :: "int option"
  b_specialInstructions :: "string option"
  b_internalNotes :: "string option"
  b_assignedAgent :: "objectid option"
  b_isActive :: "bool option"
  b_deliveredAt :: "date option"
  b_returnedAt :: "date option"
  b_cancelledAt :: "date option"
  b_cancellationReason :: "string option"

definition digits :: "nat \<Rightarrow> string \<Rightarrow> bool" where
  "digits n s = (length s = n \<and> list_all is_digit s)"

text \<open>
  The handler's validators. \<open>isEmail\<close> is taken as: an email is there and is not empty.
\<close>

definition validPartyBody :: "party \<Rightarrow> bool" where
  "validPartyBody p =
     (party_name p \<noteq> [] \<and> digits 10 (party_phone p)
      \<and> street (party_address p) \<noteq> [] \<and> city (party_address p) \<noteq> []
      \<and> state (party_address p) \<noteq> [] \<and> digits 6 (pincode (party_address p)))"

definition validCreateBody :: "shipmentBody \<Rightarrow> bool" where
  "validCreateBody b =
     (validPartyBody (b_sender b)
      \<and> (case party_email (b_sender b) of None \<Rightarrow> False | Some m \<Rightarrow> m \<noteq> [])
      \<and> validPartyBody (b_recipient b)
      \<and> pkg_description (b_package b) \<noteq> []
      \<and> pkg_weight (b_package b) \<ge> 1 / 10
      \<and> pkg_value (b_package b) \<ge> 1
      \<and> pkg_length (b_package b) \<ge> 1
      \<and> pkg_width (b_package b) \<ge> 1
      \<and> pkg_height (b_package b) \<ge> 1
      \<and> svc_cost (b_service b) \<ge> 0)"

text \<open>
  The clock of one creation: the estimated delivery that the handler computes, the
  default timestamp of a client's tracking event that carries none, the timestamp of the
  initial event, and the creation time.
\<close>

record createClock =
  c_estimated :: date
  c_cast :: date
  c_event :: date
  c_created :: date

definition the_default :: "'a \<Rightarrow> 'a option \<Rightarrow> 'a" where
  "the_default dflt v = (case v of None \<Rightarrow> dflt | Some x \<Rightarrow> x)"

text \<open>
  \<open>new Shipment(shipmentData)\<close> with the schema's defaults and the \<open>uppercase\<close> setter of
  the tracking number. A path that the constructor sets is modified; one that gets its
  default is not.
\<close>

definition newShipment ::
  "objectid \<Rightarrow> createClock \<Rightarrow> objectid \<Rightarrow> shipmentBody \<Rightarrow> shipment" where
  "newShipment oid clk creator b =
     \<lparr>shipment_id = oid,
      trackingNumber = map_option toUpperCase (b_trackingNumber b),
      sender = b_sender b,
      recipient = b_recipient b,
      package = b_package b,
      service = (b_service b)\<lparr>estimatedDelivery := Some (c_estimated clk)\<rparr>,
      currentStatus = the_default OrderPlaced (b_currentStatus b),
      progress = the_default 0 (b_progress b),
      tracking =
        map (\<lambda>e. e\<lparr>ev_timestamp := Some (orNow (ev_timestamp e) (c_cast clk))\<rparr>) (b_tracking b),
      paymentStatus = the_default ''pending'' (b_paymentStatus b),
      paymentMethod = the_default ''online'' (b_paymentMethod b),
      deliveryAttempts = the_default 0 (b_deliveryAttempts b),
      specialInstructions = b_specialInstructions b,
      internalNotes = b_internalNotes b,
      assignedAgent = b_assignedAgent b,
      createdBy = creator,
      isActive = the_default True (b_isActive b),
      deliveredAt = b_deliveredAt b,
      returnedAt = b_returnedAt b,
      cancelledAt = b_cancelledAt b,
      cancellationReason = b_cancellationReason b,
      createdAt = c_created clk,
      isNew = True,
      modifiedCurrentStatus = (b_currentStatus b \<noteq> None)\<rparr>"

definition initialEvent :: "date \<Rightarrow> shipmentBody \<Rightarrow> trackingEvent" where
  "initialEvent now b =
     \<lparr>ev_status = Some OrderPlaced,
      ev_location = city (party_address (b_sender b)) @ '', '' @ state (party_address (b_sender b)),
      ev_description = ''Shipment order has been placed and is being processed'',
      ev_timestamp = Some now,
      ev_coordinates = None,
      ev_agent = None\<rparr>"

record createdView =
  cv_trackingNumber :: "string option"
  cv_currentStatus :: status
  cv_estimatedDelivery :: "date option"
  cv_service :: service
  cv_createdAt :: date

datatype createResponse = CreateBadRequest400 | Created201 createdView | CreateServerError500

definition createShipment ::
  "draws \<Rightarrow> collection \<Rightarrow> user \<Rightarrow> objectid \<Rightarrow> createClock \<Rightarrow> shipmentBody \<Rightarrow>
     (createResponse \<times> collection) option" where
  "createShipment rnd db reqUser oid clk b =
     (if \<not> validCreateBody b then Some (CreateBadRequest400, db)
      else
        (let d0 = newShipment oid clk (user_id reqUser) b;
             d1 = d0\<lparr>tracking := tracking d0 @ [initialEvent (c_event clk) b]\<rparr>
         in case save rnd db d1 of
              None \<Rightarrow> None
            | Some (Inl e, d', db') \<Rightarrow> Some (CreateServerError500, db')
            | Some (Inr x, d', db') \<Rightarrow>
                Some (Created201
                        \<lparr>cv_trackingNumber = trackingNumber d',
                         cv_currentStatus = currentStatus d',
                         cv_estimatedDelivery = estimatedDelivery (service d'),
                         cv_service = service d',
                         cv_createdAt = createdAt d'\<rparr>, db')))"

subsection \<open>GET /my\<close>

text \<open>The \<open>query\<close> object of the handler: the email alternatives compare with \<open>req.user.email\<close>.\<close>

definition myShipmentsQuery :: "user \<Rightarrow> status option \<Rightarrow> shipment \<Rightarrow> bool" where
  "myShipmentsQuery reqUser st s =
     ((createdBy s = user_id reqUser
       \<or> party_email (sender s) = Some (email reqUser)
       \<or> party_email (recipient s) = Some (email reqUser))
      \<and> isActive s
      \<and> (case st of None \<Rightarrow> True | Some x \<Rightarrow> currentStatus s = x))"

subsection \<open>PUT /:id/tracking\<close>

record trackingBody =
  tb_status :: "status option"
  tb_location :: string
  tb_description :: string
  tb_coordinates :: "coordinates option"

record latestView =
  lv_trackingNumber :: "string option"
  lv_currentStatus :: status
  lv_progress :: int
  lv_latestEvent :: trackingEvent

datatype putResponse =
  PutBadRequest400 | PutNotFound404 | PutOk200 latestView | PutServerError500

definition validTrackingBody :: "trackingBody \<Rightarrow> bool" where
  "validTrackingBody rq =
     (tb_status rq \<noteq> None \<and> tb_location rq \<noteq> [] \<and> tb_description rq \<noteq> [])"

definition trackingData :: "user \<Rightarrow> date \<Rightarrow> trackingBody \<Rightarrow> trackingEvent" where
  "trackingData reqUser now rq =
     \<lparr>ev_status = tb_status rq,
      ev_location = tb_location rq,
      ev_description = tb_description rq,
      ev_timestamp = Some now,
      ev_coordinates = tb_coordinates rq,
      ev_agent =
        Some \<lparr>agent_name = Some (fullName reqUser),
              agent_id = Some (hexString (user_id reqUser)),
              agent_contact = Some (email reqUser)\<rparr>\<rparr>"

text \<open>
  \<open>now\<close> is the handler's \<open>new Date()\<close>; as the event then carries a timestamp,
  \<open>addTrackingEvent\<close> does not read the clock.
\<close>

definition putTracking ::
  "draws \<Rightarrow> collection \<Rightarrow> user \<Rightarrow> objectid \<Rightarrow> date \<Rightarrow> trackingBody \<Rightarrow>
     (putResponse \<times> collection) option" where
  "putTracking rnd db reqUser oid now rq =
     (if \<not> validTrackingBody rq then Some (PutBadRequest400, db)
      else
        (case findById oid db of
           None \<Rightarrow> Some (PutNotFound404, db)
         | Some d \<Rightarrow>
             (case addTrackingEvent rnd db now now (trackingData reqUser now rq) d of
                None \<Rightarrow> None
              | Some (Inl e, d', db') \<Rightarrow> Some (PutServerError500, db')
              | Some (Inr x, d', db') \<Rightarrow>
                  Some (PutOk200
                          \<lparr>lv_trackingNumber = trackingNumber d',
                           lv_currentStatus = currentStatus d',
                           lv_progress = progress d',
                           lv_latestEvent = trackingData reqUser now rq\<rparr>, db'))))"

text \<open>A sequence of requests to one shipment, each on the collection the one before left.\<close>

fun putTrackings ::
  "draws \<Rightarrow> collection \<Rightarrow> user \<Rightarrow> objectid \<Rightarrow> (date \<times> trackingBody) list \<Rightarrow>
     collection option" where
  "putTrackings rnd db reqUser oid [] = Some db"
| "putTrackings rnd db reqUser oid ((now, rq) # rest) =
     (case putTracking rnd db reqUser oid now rq of
        None \<Rightarrow> None
      | Some (resp, db') \<Rightarrow> putTrackings rnd db' reqUser oid rest)"

section \<open>Vocabulary of the specification\<close>

text \<open>The fixed mapping of the specification; \<open>Exception\<close> has no entry.\<close>

definition fixedProgress :: "status \<Rightarrow> int option" where
  "fixedProgress st =
     (case st of
        OrderPlaced \<Rightarrow> Some 10
      | InTransit \<Rightarrow> Some 50
      | OutForDelivery \<Rightarrow> Some 80
      | Delivered \<Rightarrow> Some 100
      | Returned \<Rightarrow> Some 100
      | Cancelled \<Rightarrow> Some 0
      | Exception \<Rightarrow> None)"

text \<open>
  A shipment whose progress agrees with its status: the status is \<open>Exception\<close>, or the
  progress is the fixed mapping of the status.
\<close>

definition consistent :: "shipment \<Rightarrow> bool" where
  "consistent d = (currentStatus d = Exception \<or> fixedProgress (currentStatus d) = Some (progress d))"

text \<open>
  Two shipments that an anonymous caller may not tell apart: they agree on the tracking
  number, the active flag, the status, the progress, the estimated delivery and the
  service type, and their events agree one by one on status, location, description and
  timestamp. Everything else may differ: the sender, recipient and package blocks, the
  rest of the service block, and the agent and the coordinates of every event.
\<close>

definition publiclyEqualEvent :: "trackingEvent \<Rightarrow> trackingEvent \<Rightarrow> bool" where
  "publiclyEqualEvent e e' =
     (ev_status e = ev_status e' \<and> ev_location e = ev_location e'
      \<and> ev_description e = ev_description e' \<and> ev_timestamp e = ev_timestamp e')"

definition publiclyEqual :: "shipment \<Rightarrow> shipment \<Rightarrow> bool" where
  "publiclyEqual s s' =
     (trackingNumber s = trackingNumber s' \<and> isActive s = isActive s'
      \<and> currentStatus s = currentStatus s' \<and> progress s = progress s'
      \<and> list_all2 publiclyEqualEvent (tracking s) (tracking s')
      \<and> estimatedDelivery (service s) = estimatedDelivery (service s')
      \<and> svc_type (service s) = svc_type (service s'))"

text \<open>
  The specification's association of a shipment with an account: the account created
  it, or the account's registered email is the sender's or the recipient's.
\<close>

definition associated :: "user \<Rightarrow> shipment \<Rightarrow> bool" where
  "associated u s =
     (createdBy s = user_id u
      \<or> party_email (sender s) = Some (email u)
      \<or> party_email (recipient s) = Some (email u))"

section \<open>Example data\<close>

definition rnd0 :: draws where
  "rnd0 i = \<lparr>numer = 2, shift = 2\<rparr>"

definition exAgent :: user where
  "exAgent =
     \<lparr>user_id = ObjectId ''65f000000000000000000a01'', fullName = ''Asha Rao'',
      email = ''asha@example.com'', phone = ''9000000001'', password = ''hash-of-secret'',
      role = ''agent'', user_isActive = True, loginAttempts = 0, lockUntil = None,
      lastLogin = None\<rparr>"

definition exSender :: party where
  "exSender =
     \<lparr>party_name = ''Ravi Kumar'', party_email = Some ''ravi@example.com'',
      party_phone = ''9000000002'',
      party_address = \<lparr>street = ''1 MG Road'', city = ''Mumbai'', state = ''Maharashtra'',
                       pincode = ''400001'', country = ''India''\<rparr>\<rparr>"

definition exRecipient :: party where
  "exRecipient =
     \<lparr>party_name = ''Meera Nair'', party_email = Some ''meera@example.com'',
      party_phone = ''9000000003'',
      party_address = \<lparr>street = ''7 Park Street'', city = ''Pune'', state = ''Maharashtra'',
                       pincode = ''411001'', country = ''India''\<rparr>\<rparr>"

definition exPackage :: package where
  "exPackage =
     \<lparr>pkg_description = ''Books'', pkg_weight = 2, pkg_length = 30, pkg_width = 20,
      pkg_height = 10, pkg_value = 500, pkg_category = ''Other'', pkg_isFragile = False,
      pkg_requiresSignature = False\<rparr>"

definition exService :: service where
  "exService =
     \<lparr>svc_type = NextDay, svc_priority = ''normal'', svc_cost = 120,
      estimatedDelivery = None,
      svc_insurance = \<lparr>isInsured = False, coverage = 0, premium = 0\<rparr>\<rparr>"

definition exBody :: shipmentBody where
  "exBody =
     \<lparr>b_trackingNumber = Some ''IND123456789'', b_sender = exSender, b_recipient = exRecipient,
      b_package = exPackage, b_service = exService, b_currentStatus = None, b_progress = None,
      b_tracking = [], b_paymentStatus = None, b_paymentMethod = None,
      b_deliveryAttempts = None, b_specialInstructions = None, b_internalNotes = None,
      b_assignedAgent = None, b_isActive = None, b_deliveredAt = None, b_returnedAt = None,
      b_cancelledAt = None, b_cancellationReason = None\<rparr>"

definition exClock :: createClock where
  "exClock = \<lparr>c_estimated = 172801000, c_cast = 1000, c_event = 1000, c_created = 1001\<rparr>"

definition exId :: objectid where
  "exId = ObjectId ''65f000000000000000000b01''"

definition exPlaced :: trackingEvent where
  "exPlaced =
     \<lparr>ev_status = Some OrderPlaced, ev_location = ''Mumbai, Maharashtra'',
      ev_description = ''Shipment order has been placed and is being processed'',
      ev_timestamp = Some 1000, ev_coordinates = None, ev_agent = None\<rparr>"

definition exShipment :: shipment where
  "exShipment =
     \<lparr>shipment_id = exId, trackingNumber = Some ''IND123456789'', sender = exSender,
      recipient = exRecipient, package = exPackage,
      service = exService\<lparr>estimatedDelivery := Some 172801000\<rparr>,
      currentStatus = OrderPlaced, progress = 0, tracking = [exPlaced],
      paymentStatus = ''pending'', paymentMethod = ''online'', deliveryAttempts = 0,
      specialInstructions = None, internalNotes = None, assignedAgent = None,
      createdBy = ObjectId ''65f000000000000000000a01'', isActive = True, deliveredAt = None,
      returnedAt = None, cancelledAt = None, cancellationReason = None, createdAt = 1001,
      isNew = False, modifiedCurrentStatus = False\<rparr>"

definition exEvent :: "status \<Rightarrow> date option \<Rightarrow> trackingEvent" where
  "exEvent st ts =
     \<lparr>ev_status = Some st, ev_location = ''Pune Hub'', ev_description = ''Scanned at facility'',
      ev_timestamp = ts, ev_coordinates = None, ev_agent = None\<rparr>"

definition exInTransit :: shipment where
  "exInTransit =
     exShipment\<lparr>currentStatus := InTransit, progress := 50,
       tracking := [exPlaced, exEvent InTransit (Some 2000)]\<rparr>"

definition exOutForDelivery :: shipment where
  "exOutForDelivery =
     exShipment\<lparr>currentStatus := OutForDelivery, progress := 80,
       tracking := [exPlaced, exEvent InTransit (Some 2000), exEvent OutForDelivery (Some 3000)]\<rparr>"

definition exDelivered :: shipment where
  "exDelivered =
     exShipment\<lparr>currentStatus := Delivered, progress := 100,
       tracking := [exPlaced, exEvent InTransit (Some 2000), exEvent OutForDelivery (Some 3000),
                    exEvent Delivered (Some 4000)],
       deliveredAt := Some 4000\<rparr>"

definition exCreatedView :: createdView where
  "exCreatedView =
     \<lparr>cv_trackingNumber = Some ''IND123456789'', cv_currentStatus = OrderPlaced,
      cv_estimatedDelivery = Some 172801000,
      cv_service = exService\<lparr>estimatedDelivery := Some 172801000\<rparr>,
      cv_createdAt = 1001\<rparr>"

definition exCalls :: "(date \<times> trackingBody) list" where
  "exCalls =
     [(2000, \<lparr>tb_status = Some InTransit, tb_location = ''Pune Hub'',
              tb_description = ''Scanned at facility'', tb_coordinates = None\<rparr>),
      (3000, \<lparr>tb_status = Some OutForDelivery, tb_location = ''Pune'',
              tb_description = ''Out for delivery'', tb_coordinates = None\<rparr>)]"

definition exAttempted :: shipment where
  "exAttempted = exOutForDelivery\<lparr>deliveryAttempts := 2\<rparr>"

definition exReturning :: shipment where
  "exReturning =
     exOutForDelivery\<lparr>deliveryAttempts := 3, currentStatus := Exception,
       tracking := tracking exOutForDelivery @ [maxAttemptsEvent\<lparr>ev_timestamp := Some 6000\<rparr>]\<rparr>"

definition rndCollide :: draws where
  "rndCollide i =
     (if i = 0 then \<lparr>numer = 1749065, shift = 26\<rparr> else \<lparr>numer = 2, shift = 2\<rparr>)"

definition exUnnumbered :: shipment where
  "exUnnumbered =
     exShipment\<lparr>shipment_id := ObjectId ''65f000000000000000000b02'', trackingNumber := None,
       isNew := True\<rparr>"

definition exRavi :: user where
  "exRavi =
     \<lparr>user_id = ObjectId ''65f000000000000000000a02'', fullName = ''Ravi Kumar'',
      email = ''ravi@example.com'', phone = ''9000000002'', password = ''hash-of-secret'',
      role = ''user'', user_isActive = True, loginAttempts = 0, lockUntil = None,
      lastLogin = None\<rparr>"

definition exHidden :: shipment where
  "exHidden =
     exInTransit\<lparr>shipment_id := ObjectId ''65f000000000000000000b09'',
       sender := exRecipient, recipient := exSender,
       package := exPackage\<lparr>pkg_description := ''Jewellery'', pkg_value := 90000\<rparr>,
       service := (service exInTransit)\<lparr>svc_cost := 999, svc_priority := ''urgent''\<rparr>,
       tracking :=
         [exPlaced\<lparr>ev_agent := Some \<lparr>agent_name = Some ''Asha Rao'', agent_id = None,
                                        agent_contact = Some ''asha@example.com''\<rparr>\<rparr>,
          (exEvent InTransit (Some 2000))
             \<lparr>ev_coordinates := Some \<lparr>latitude = Some 18, longitude = Some 73\<rparr>\<rparr>],
       createdBy := ObjectId ''65f000000000000000000a02'', internalNotes := Some ''fragile''\<rparr>"

definition exCompare :: "string \<Rightarrow> string \<Rightarrow> bool" where
  "exCompare candidatePassword hash = (hash = ''hash-of-'' @ candidatePassword)"

definition clockAt :: "date \<Rightarrow> clock" where
  "clockAt t =
     \<lparr>at_lockCheck = t, at_expired = t + 1, at_locked = t + 1, at_set = t + 2,
      at_lastLogin = t + 3\<rparr>"

definition exWrong :: "date \<Rightarrow> user list \<Rightarrow> user list" where
  "exWrong t us = snd (findByCredentials exCompare (clockAt t) us ''Ravi@example.com'' ''guess'')"

definition exInactive :: user where
  "exInactive = exRavi\<lparr>user_isActive := False, loginAttempts := 2\<rparr>"

section \<open>Evaluation and the save pipeline\<close>

lemmas ex_defs =
  exShipment_def exInTransit_def exOutForDelivery_def exDelivered_def exEvent_def exPlaced_def
  exId_def exSender_def exRecipient_def exPackage_def exService_def exBody_def exClock_def
  exAgent_def

lemmas ev_defs =
  addTrackingEvent_def save_def validateSync_def matches_IND9_def is_digit_def validEvent_def
  preSaveTrackingNumber_def preSaveProgress_def statusProgress_def persist_def stored_def
  replaceById_def applyEvent_def stampTerminal_def setCurrentStatus_def pushEvent_def orNow_def
  findById_def findOne_def hydrate_def

lemma digit_char_values:
  "digit_char 0 = CHR ''0''" "digit_char 1 = CHR ''1''" "digit_char 2 = CHR ''2''"
  "digit_char 3 = CHR ''3''" "digit_char 4 = CHR ''4''" "digit_char 5 = CHR ''5''"
  "digit_char 6 = CHR ''6''" "digit_char 7 = CHR ''7''" "digit_char 8 = CHR ''8''"
  "digit_char 9 = CHR ''9''" "digit_char (Suc 0) = CHR ''1''"
  by code_simp+

lemma upper_char_values:
  "upper_char CHR ''i'' = CHR ''I''" "upper_char CHR ''n'' = CHR ''N''"
  "upper_char CHR ''d'' = CHR ''D''"
  by code_simp+

lemma upper_char_fixed:
  "\<not> ((97::nat) \<le> of_char c \<and> (of_char c :: nat) \<le> 122) \<Longrightarrow> upper_char c = c"
  by (auto simp: upper_char_def)

lemma toUpperCase_IND: "toUpperCase ''IND123456789'' = ''IND123456789''"
  by (simp add: toUpperCase_def upper_char_fixed)

lemma matches_IND9_nonempty: "matches_IND9 tn \<Longrightarrow> tn \<noteq> []"
  by (auto simp: matches_IND9_def)

text \<open>
  Validation requires a tracking number, so the generator of the first hook is never
  entered by a \<open>save()\<close> that passes validation, and \<open>save()\<close> always returns.
\<close>

lemma save_cases:
  "save rnd db d =
     Some (if validateSync d then persist db (preSaveProgress d)
           else (Inl ValidationError, d, db))"
  by (auto simp: save_def validateSync_def preSaveTrackingNumber_def
      dest: matches_IND9_nonempty split: option.splits)

lemma save_new_without_number:
  "trackingNumber d = None \<Longrightarrow> save rnd db d = Some (Inl ValidationError, d, db)"
  by (simp add: save_def validateSync_def)

lemma persist_ok: "persist db d = (Inr (), d', db') \<Longrightarrow> d' = stored d"
  by (auto simp: persist_def split: if_splits)

lemma persist_error: "persist db d = (Inl e, d', db') \<Longrightarrow> d' = d \<and> db' = db"
  by (auto simp: persist_def split: if_splits)

lemma hydrate_stored [simp]: "hydrate (stored d) = stored d"
  by (simp add: hydrate_def stored_def)

lemma shipment_id_stored [simp]: "shipment_id (stored d) = shipment_id d"
  by (simp add: stored_def)

lemma find_append_last: "\<not> list_ex P xs \<Longrightarrow> P y \<Longrightarrow> find P (xs @ [y]) = Some y"
  by (induction xs) auto

lemma find_replaceById:
  "list_ex (\<lambda>s. shipment_id s = shipment_id d) db \<Longrightarrow>
   find (\<lambda>s. shipment_id s = shipment_id d) (replaceById d db) = Some d"
  by (induction db) (auto simp: replaceById_def)

lemma findById_persist:
  "persist db d = (Inr (), d', db') \<Longrightarrow> findById (shipment_id d) db' = Some d'"
  apply (auto simp: persist_def findById_def findOne_def split: if_splits)
  subgoal by (subst find_append_last) (auto simp: list_ex_iff)
  subgoal using find_replaceById [of "stored d" db] by (auto simp: list_ex_iff)
  done

lemma findById_hydrated:
  "findById oid db = Some d \<Longrightarrow>
     shipment_id d = oid \<and> \<not> isNew d \<and> \<not> modifiedCurrentStatus d"
  by (auto simp: findById_def findOne_def hydrate_def dest: find_Some_iff [THEN iffD1])

lemma preSaveProgress_id [simp]: "shipment_id (preSaveProgress d) = shipment_id d"
  by (auto simp: preSaveProgress_def split: option.splits)

lemma applyEvent_id [simp]: "shipment_id (applyEvent t1 t2 e d) = shipment_id d"
  by (auto simp: applyEvent_def stampTerminal_def setCurrentStatus_def pushEvent_def
      split: option.splits)

lemma addTrackingEvent_cases:
  "addTrackingEvent rnd db t1 t2 e d =
     Some (if validateSync (applyEvent t1 t2 e d)
           then persist db (preSaveProgress (applyEvent t1 t2 e d))
           else (Inl ValidationError, applyEvent t1 t2 e d, db))"
  by (simp add: addTrackingEvent_def save_cases)

lemma addTrackingEvent_ok:
  "addTrackingEvent rnd db t1 t2 e d = Some (Inr (), d', db') \<Longrightarrow>
     validateSync (applyEvent t1 t2 e d)
     \<and> d' = stored (preSaveProgress (applyEvent t1 t2 e d))
     \<and> findById (shipment_id d) db' = Some d'"
  by (auto simp: addTrackingEvent_cases split: if_splits dest: persist_ok findById_persist)

lemma progress_applyEvent:
  "ev_status e = Some st \<Longrightarrow> \<not> isNew d \<Longrightarrow> \<not> modifiedCurrentStatus d \<Longrightarrow>
   progress (stored (preSaveProgress (applyEvent t1 t2 e d))) =
     (if st = currentStatus d then progress d
      else case fixedProgress st of Some v \<Rightarrow> v | None \<Rightarrow> progress d)"
  by (cases st)
    (auto simp: applyEvent_def stampTerminal_def setCurrentStatus_def pushEvent_def
      preSaveProgress_def statusProgress_def fixedProgress_def stored_def)

lemma status_applyEvent:
  "ev_status e = Some st \<Longrightarrow>
   currentStatus (stored (preSaveProgress (applyEvent t1 t2 e d))) = st"
  by (auto simp: applyEvent_def stampTerminal_def setCurrentStatus_def pushEvent_def
      preSaveProgress_def stored_def split: option.splits)

lemma preSaveProgress_stamps:
  "deliveredAt (preSaveProgress d) = deliveredAt d"
  "returnedAt (preSaveProgress d) = returnedAt d"
  "cancelledAt (preSaveProgress d) = cancelledAt d"
  "cancellationReason (preSaveProgress d) = cancellationReason d"
  "tracking (preSaveProgress d) = tracking d"
  by (auto simp: preSaveProgress_def split: option.splits)

lemma stored_stamps:
  "deliveredAt (stored d) = deliveredAt d"
  "returnedAt (stored d) = returnedAt d"
  "cancelledAt (stored d) = cancelledAt d"
  "cancellationReason (stored d) = cancellationReason d"
  "tracking (stored d) = tracking d"
  by (auto simp: stored_def)

lemma applyEvent_stamps:
  "ev_status e = Some Delivered \<Longrightarrow>
     deliveredAt (applyEvent t1 t2 e d) = Some (orNow (ev_timestamp e) t2)"
  "ev_status e = Some Returned \<Longrightarrow>
     returnedAt (applyEvent t1 t2 e d) = Some (orNow (ev_timestamp e) t2)"
  "ev_status e = Some Cancelled \<Longrightarrow>
     cancelledAt (applyEvent t1 t2 e d) = Some (orNow (ev_timestamp e) t2)
     \<and> cancellationReason (applyEvent t1 t2 e d) = Some (ev_description e)"
  by (auto simp: applyEvent_def stampTerminal_def)

lemma applyEvent_tracking:
  "tracking (applyEvent t1 t2 e d) =
     tracking d @ [e\<lparr>ev_timestamp := Some (orNow (ev_timestamp e) t1)\<rparr>]"
  by (auto simp: applyEvent_def stampTerminal_def setCurrentStatus_def pushEvent_def
      split: option.splits)

lemma persist_result: "persist db x = (r, d', db') \<Longrightarrow> d' = x \<or> d' = stored x"
  by (auto simp: persist_def split: if_splits)

lemma addTrackingEvent_result:
  "addTrackingEvent rnd db t1 t2 e d = Some (r, d', db') \<Longrightarrow>
     d' = applyEvent t1 t2 e d \<or> d' = preSaveProgress (applyEvent t1 t2 e d)
     \<or> d' = stored (preSaveProgress (applyEvent t1 t2 e d))"
  by (auto simp: addTrackingEvent_cases split: if_splits dest: persist_result)

subsection \<open>Appending to a stored shipment\<close>

lemma persist_existing:
  "\<not> isNew x \<Longrightarrow> list_ex (\<lambda>s. shipment_id s = shipment_id x) db \<Longrightarrow>
     persist db x = (Inr (), stored x, replaceById (stored x) db)"
  by (simp add: persist_def)

lemma find_Some_mem: "find P xs = Some x \<Longrightarrow> x \<in> set xs \<and> P x"
  by (induction xs) (auto split: if_splits)

lemma findById_list_ex:
  "findById oid db = Some d \<Longrightarrow> list_ex (\<lambda>s. shipment_id s = oid) db"
  by (auto simp: findById_def findOne_def list_ex_iff dest: find_Some_mem)

lemma validateSync_applyEvent:
  "validateSync d \<Longrightarrow> validEvent e \<Longrightarrow> validateSync (applyEvent t1 t2 e d)"
  by (auto simp: validateSync_def applyEvent_def stampTerminal_def setCurrentStatus_def
      pushEvent_def validEvent_def split: option.splits)

lemma validateSync_stored_preSaveProgress:
  "validateSync d \<Longrightarrow> validateSync (stored (preSaveProgress d))"
  by (cases "currentStatus d")
    (auto simp: validateSync_def stored_def preSaveProgress_def statusProgress_def
      split: option.splits)

lemma flags_applyEvent:
  "isNew (applyEvent t1 t2 e d) = isNew d"
  by (auto simp: applyEvent_def stampTerminal_def setCurrentStatus_def pushEvent_def
      split: option.splits)

lemma preSaveProgress_isNew [simp]: "isNew (preSaveProgress d) = isNew d"
  by (auto simp: preSaveProgress_def split: option.splits)

lemma addTrackingEvent_stored_valid:
  assumes "findById oid db = Some d" "validateSync d" "validEvent e"
  shows "\<exists>d' db'. addTrackingEvent rnd db t1 t2 e d = Some (Inr (), d', db')
     \<and> findById oid db' = Some d' \<and> validateSync d'
     \<and> tracking d' = tracking d @ [e\<lparr>ev_timestamp := Some (orNow (ev_timestamp e) t1)\<rparr>]"
proof -
  let ?a = "applyEvent t1 t2 e d"
  from assms(1) have hyd: "shipment_id d = oid" "\<not> isNew d"
    by (auto dest: findById_hydrated)
  have v: "validateSync ?a" using assms(2,3) by (rule validateSync_applyEvent)
  have ex: "list_ex (\<lambda>s. shipment_id s = shipment_id (preSaveProgress ?a)) db"
    using findById_list_ex [OF assms(1)] hyd(1) by simp
  have p: "persist db (preSaveProgress ?a) =
      (Inr (), stored (preSaveProgress ?a), replaceById (stored (preSaveProgress ?a)) db)"
    using hyd(2) ex by (intro persist_existing) (simp_all add: flags_applyEvent)
  have r: "addTrackingEvent rnd db t1 t2 e d =
      Some (Inr (), stored (preSaveProgress ?a), replaceById (stored (preSaveProgress ?a)) db)"
    using v p by (simp add: addTrackingEvent_cases)
  have f: "findById oid (replaceById (stored (preSaveProgress ?a)) db) = Some (stored (preSaveProgress ?a))"
    using addTrackingEvent_ok [OF r] hyd(1) by simp
  have t: "tracking (stored (preSaveProgress ?a)) =
      tracking d @ [e\<lparr>ev_timestamp := Some (orNow (ev_timestamp e) t1)\<rparr>]"
    by (simp add: stored_stamps preSaveProgress_stamps applyEvent_tracking)
  from r f t validateSync_stored_preSaveProgress [OF v] show ?thesis by blast
qed

lemma validEvent_trackingData:
  "validTrackingBody rq \<Longrightarrow> validEvent (trackingData u now rq)"
  by (simp add: validTrackingBody_def validEvent_def trackingData_def)

lemma trackingData_timestamp:
  "(trackingData u now rq)\<lparr>ev_timestamp := Some (orNow (ev_timestamp (trackingData u now rq)) t)\<rparr>
     = trackingData u now rq"
  by (simp add: trackingData_def orNow_def)

lemma putTracking_invalid:
  "\<not> validTrackingBody rq \<Longrightarrow> putTracking rnd db u oid now rq = Some (PutBadRequest400, db)"
  by (simp add: putTracking_def)

lemma putTracking_valid:
  assumes "findById oid db = Some d" "validateSync d" "validTrackingBody rq"
  shows "\<exists>v db' d'. putTracking rnd db u oid now rq = Some (PutOk200 v, db')
     \<and> findById oid db' = Some d' \<and> validateSync d'
     \<and> tracking d' = tracking d @ [trackingData u now rq]"
proof -
  from addTrackingEvent_stored_valid
    [OF assms(1,2) validEvent_trackingData [OF assms(3)], of rnd now now u now]
  obtain d' db' where
    r: "addTrackingEvent rnd db now now (trackingData u now rq) d = Some (Inr (), d', db')"
    and f: "findById oid db' = Some d'" and v: "validateSync d'"
    and t: "tracking d' = tracking d @ [trackingData u now rq]"
    by (auto simp: trackingData_timestamp)
  from assms(1,3) r have "\<exists>v. putTracking rnd db u oid now rq = Some (PutOk200 v, db')"
    by (simp add: putTracking_def)
  with f v t show ?thesis by blast
qed

lemma putTrackings_tracking:
  "findById oid db = Some d \<Longrightarrow> validateSync d \<Longrightarrow>
   \<exists>db' d'. putTrackings rnd db u oid calls = Some db' \<and> findById oid db' = Some d'
     \<and> validateSync d'
     \<and> tracking d' =
         tracking d @ map (\<lambda>(now, rq). trackingData u now rq)
                        (filter (\<lambda>(now, rq). validTrackingBody rq) calls)"
proof (induction calls arbitrary: db d)
  case Nil
  then show ?case by simp
next
  case (Cons c calls)
  obtain now rq where c: "c = (now, rq)" by (cases c)
  show ?case
  proof (cases "validTrackingBody rq")
    case False
    with Cons.IH [OF Cons.prems] show ?thesis
      by (simp add: c putTracking_invalid)
  next
    case True
    from putTracking_valid [OF Cons.prems True, of rnd u now]
    obtain v db1 d1 where p: "putTracking rnd db u oid now rq = Some (PutOk200 v, db1)"
      and f: "findById oid db1 = Some d1" and vd: "validateSync d1"
      and t: "tracking d1 = tracking d @ [trackingData u now rq]"
      by blast
    from Cons.IH [OF f vd] p t True show ?thesis
      by (auto simp: c)
  qed
qed

lemma createShipment_created:
  assumes "createShipment rnd db u oid clk b = Some (Created201 v, db1)"
  shows "\<exists>d1. db1 = db @ [d1] \<and> findById oid db1 = Some d1 \<and> validateSync d1
     \<and> tracking d1 =
         map (\<lambda>e. e\<lparr>ev_timestamp := Some (orNow (ev_timestamp e) (c_cast clk))\<rparr>) (b_tracking b)
           @ [initialEvent (c_event clk) b]"
proof -
  let ?d0 = "newShipment oid clk (user_id u) b"
  let ?d1 = "?d0\<lparr>tracking := tracking ?d0 @ [initialEvent (c_event clk) b]\<rparr>"
  from assms obtain x d' where s: "save rnd db ?d1 = Some (Inr x, d', db1)"
    by (auto simp: createShipment_def Let_def split: if_splits option.splits sum.splits)
  then have v: "validateSync ?d1" and p: "persist db (preSaveProgress ?d1) = (Inr (), d', db1)"
    by (auto simp: save_cases split: if_splits)
  have n: "isNew (preSaveProgress ?d1)" by (simp add: newShipment_def)
  from p n have db1: "db1 = db @ [stored (preSaveProgress ?d1)]"
    by (auto simp: persist_def split: if_splits)
  have i: "shipment_id (preSaveProgress ?d1) = oid" by (simp add: newShipment_def)
  from findById_persist [OF p] i persist_ok [OF p]
  have f: "findById oid db1 = Some (stored (preSaveProgress ?d1))" by simp
  have t: "tracking (stored (preSaveProgress ?d1)) =
      map (\<lambda>e. e\<lparr>ev_timestamp := Some (orNow (ev_timestamp e) (c_cast clk))\<rparr>) (b_tracking b)
        @ [initialEvent (c_event clk) b]"
    by (simp add: stored_stamps preSaveProgress_stamps newShipment_def)
  from db1 f t validateSync_stored_preSaveProgress [OF v] show ?thesis by blast
qed

lemma save_tracking:
  "save rnd db d = Some (r, d', db') \<Longrightarrow> tracking d' = tracking d"
  by (auto simp: save_cases stored_stamps preSaveProgress_stamps split: if_splits
      dest!: persist_result)

lemma addTrackingEvent_total:
  "\<exists>r d' db'. addTrackingEvent rnd db t1 t2 e d = Some (r, d', db')"
proof -
  obtain x where "addTrackingEvent rnd db t1 t2 e d = Some x"
    by (simp add: addTrackingEvent_cases)
  then show ?thesis by (cases x) auto
qed

lemma addTrackingEvent_tracking:
  "addTrackingEvent rnd db t1 t2 e d = Some (r, d', db') \<Longrightarrow>
     tracking d' = tracking d @ [e\<lparr>ev_timestamp := Some (orNow (ev_timestamp e) t1)\<rparr>]"
  by (auto simp: addTrackingEvent_def applyEvent_tracking dest: save_tracking)

lemma incrementDeliveryAttempts_tracking:
  "incrementDeliveryAttempts rnd db t1 t2 d = Some (r, d', db') \<Longrightarrow>
     tracking d' =
       (if deliveryAttempts d + 1 \<ge> 3
        then tracking d @ [maxAttemptsEvent\<lparr>ev_timestamp := Some t1\<rparr>] else tracking d)"
  by (auto simp: incrementDeliveryAttempts_def Let_def maxAttemptsEvent_def orNow_def
      split: if_splits option.splits dest: addTrackingEvent_tracking save_tracking)

lemma save_existing:
  assumes "\<not> isNew x" "list_ex (\<lambda>s. shipment_id s = shipment_id x) db" "validateSync x"
  shows "save rnd db x =
     Some (Inr (), stored (preSaveProgress x), replaceById (stored (preSaveProgress x)) db)"
  using assms by (simp add: save_cases persist_existing)

lemma save_fields:
  assumes "save rnd db x = Some (r, d', db')"
  shows "deliveryAttempts d' = deliveryAttempts x" and "currentStatus d' = currentStatus x"
    and "currentStatus x = Exception \<Longrightarrow> progress d' = progress x"
proof -
  from assms have d': "d' = x \<or> d' = preSaveProgress x \<or> d' = stored (preSaveProgress x)"
    by (auto simp: save_cases split: if_splits dest: persist_result)
  show "deliveryAttempts d' = deliveryAttempts x"
    using d' by (auto simp: stored_def preSaveProgress_def split: option.splits)
  show "currentStatus d' = currentStatus x"
    using d' by (auto simp: stored_def preSaveProgress_def split: option.splits)
  show "progress d' = progress x" if "currentStatus x = Exception"
    using d' that by (auto simp: stored_def preSaveProgress_def statusProgress_def)
qed

lemma applyEvent_fields:
  "deliveryAttempts (applyEvent t1 t2 e d) = deliveryAttempts d"
  "progress (applyEvent t1 t2 e d) = progress d"
  "ev_status e = Some st \<Longrightarrow> currentStatus (applyEvent t1 t2 e d) = st"
  by (auto simp: applyEvent_def stampTerminal_def setCurrentStatus_def pushEvent_def
      split: option.splits)

lemma save_bound:
  assumes "save rnd db x = Some (r, d', db')"
    and "list_all (\<lambda>s. deliveryAttempts s \<le> 3) db"
  shows "list_all (\<lambda>s. deliveryAttempts s \<le> 3) db'"
proof (cases "validateSync x")
  case False
  with assms show ?thesis by (simp add: save_cases)
next
  case True
  then have b: "deliveryAttempts (stored (preSaveProgress x)) \<le> 3"
    by (auto simp: validateSync_def stored_def preSaveProgress_def split: option.splits)
  from assms(1) True have "persist db (preSaveProgress x) = (r, d', db')"
    by (simp add: save_cases)
  then have "db' = db \<or> db' = db @ [stored (preSaveProgress x)]
      \<or> db' = replaceById (stored (preSaveProgress x)) db"
    by (auto simp: persist_def split: if_splits)
  with assms(2) b show ?thesis
    by (auto simp: replaceById_def list_all_iff)
qed

subsection \<open>Agreement of progress and status along a sequence of requests\<close>

lemma consistent_step:
  assumes "ev_status e = Some st" "\<not> isNew d" "\<not> modifiedCurrentStatus d" "consistent d"
  shows "consistent (stored (preSaveProgress (applyEvent t1 t2 e d)))"
proof -
  let ?d' = "stored (preSaveProgress (applyEvent t1 t2 e d))"
  have s: "currentStatus ?d' = st"
    using assms(1) by (rule status_applyEvent)
  have p: "progress ?d' =
      (if st = currentStatus d then progress d
       else case fixedProgress st of Some v \<Rightarrow> v | None \<Rightarrow> progress d)"
    using assms(1,2,3) by (rule progress_applyEvent)
  from assms(4) show ?thesis
    unfolding consistent_def s p by (cases st) (auto simp: fixedProgress_def)
qed

lemma putTracking_consistent:
  assumes "findById oid db = Some d" "validateSync d" "consistent d"
  shows "\<exists>resp db' d'. putTracking rnd db u oid now rq = Some (resp, db')
     \<and> findById oid db' = Some d' \<and> validateSync d' \<and> consistent d'"
proof (cases "validTrackingBody rq")
  case False
  with assms show ?thesis by (auto simp: putTracking_invalid)
next
  case True
  let ?e = "trackingData u now rq"
  from True obtain st where st: "ev_status ?e = Some st"
    by (auto simp: validTrackingBody_def trackingData_def)
  from assms(1) have hyd: "\<not> isNew d" "\<not> modifiedCurrentStatus d"
    by (auto dest: findById_hydrated)
  from addTrackingEvent_stored_valid
    [OF assms(1,2) validEvent_trackingData [OF True], of rnd now now u now]
  obtain d' db' where r: "addTrackingEvent rnd db now now ?e d = Some (Inr (), d', db')"
    and f: "findById oid db' = Some d'" and v: "validateSync d'"
    by blast
  from addTrackingEvent_ok [OF r]
  have "d' = stored (preSaveProgress (applyEvent now now ?e d))" by simp
  with consistent_step [OF st hyd assms(3)] have c: "consistent d'" by simp
  from assms(1) True r have "\<exists>v. putTracking rnd db u oid now rq = Some (PutOk200 v, db')"
    by (simp add: putTracking_def)
  with f v c show ?thesis by blast
qed

lemma putTrackings_consistent:
  "findById oid db = Some d \<Longrightarrow> validateSync d \<Longrightarrow> consistent d \<Longrightarrow>
   \<exists>db' d'. putTrackings rnd db u oid calls = Some db' \<and> findById oid db' = Some d'
     \<and> consistent d'"
proof (induction calls arbitrary: db d)
  case Nil
  then show ?case by simp
next
  case (Cons c calls)
  obtain now rq where c: "c = (now, rq)" by (cases c)
  from putTracking_consistent [OF Cons.prems, of rnd u now rq]
  obtain resp db1 d1 where p: "putTracking rnd db u oid now rq = Some (resp, db1)"
    and f: "findById oid db1 = Some d1" and v: "validateSync d1" and k: "consistent d1"
    by blast
  from Cons.IH [OF f v k] p show ?case by (auto simp: c)
qed

subsection \<open>The tracking-number generator\<close>

lemma is_digit_digit_char: "d < 10 \<Longrightarrow> is_digit (digit_char d)"
  by (simp add: is_digit_def digit_char_def)

lemma digits_decimal: "list_all is_digit (decimal n)"
proof (induction n rule: decimal.induct)
  case (1 n)
  show ?case
  proof (cases "n < 10")
    case True
    then show ?thesis by (subst decimal.simps) (simp add: is_digit_digit_char)
  next
    case False
    with 1 show ?thesis by (subst decimal.simps) (simp add: is_digit_digit_char)
  qed
qed

lemma length_decimal: "10 ^ k \<le> n \<Longrightarrow> n < 10 ^ Suc k \<Longrightarrow> length (decimal n) = Suc k"
proof (induction k arbitrary: n)
  case 0
  then show ?case by (subst decimal.simps) simp
next
  case (Suc k)
  define a where "a = (10::nat) ^ k"
  have a: "1 \<le> a" by (simp add: a_def)
  from Suc.prems have b: "10 * a \<le> n" "n < 10 * (10 * a)"
    by (simp_all add: a_def)
  from a b have ge: "\<not> n < 10" by arith
  from b have "a \<le> n div 10" "n div 10 < 10 * a" by arith+
  then have "10 ^ k \<le> n div 10" "n div 10 < 10 ^ Suc k" by (simp_all add: a_def)
  from Suc.IH [OF this] ge show ?case by (subst decimal.simps) simp
qed

lemma bitlen_le: "n < 2 ^ j \<Longrightarrow> bitlen n \<le> j"
proof (induction j arbitrary: n)
  case 0
  then show ?case by (subst bitlen.simps) simp
next
  case (Suc j)
  show ?case
  proof (cases "n = 0")
    case True
    then show ?thesis by (subst bitlen.simps) simp
  next
    case False
    from Suc.prems have "n div 2 < 2 ^ j" by simp
    from Suc.IH [OF this] False show ?thesis by (subst bitlen.simps) simp
  qed
qed

lemma roundHalfEven_le: "roundHalfEven n s * 2 ^ s \<le> n + 2 ^ s div 2"
proof -
  define a :: nat where "a = 2 ^ s"
  define q where "q = n div a"
  define r where "r = n mod a"
  have n: "n = q * a + r" by (simp add: q_def r_def)
  have up: "(q + 1) * a \<le> n + a div 2" if "a \<le> 2 * r"
  proof -
    from that have "a \<le> r + a div 2" by arith
    then show ?thesis by (simp add: n)
  qed
  have "roundHalfEven n s = q \<or> (roundHalfEven n s = q + 1 \<and> a \<le> 2 * r)"
    by (auto simp: roundHalfEven_def Let_def a_def q_def r_def)
  then show ?thesis
  proof
    assume "roundHalfEven n s = q"
    then show ?thesis by (simp add: n a_def [symmetric])
  next
    assume "roundHalfEven n s = q + 1 \<and> a \<le> 2 * r"
    with up show ?thesis by (simp add: a_def [symmetric])
  qed
qed

lemma floorProduct_less:
  assumes "numer r < 2 ^ 53" "numer r < 2 ^ shift r"
  shows "floorProduct r 900000000 < 900000000"
proof -
  define n where "n = numer r * 900000000"
  define s where "s = bitlen n - 53"
  define p :: nat where "p = 2 ^ shift r"
  from assms(1) have "n < 2 ^ 53 * 900000000" by (simp add: n_def)
  also have "\<dots> < (2::nat) ^ 83" by simp
  finally have "bitlen n \<le> 83" by (rule bitlen_le)
  then have "s \<le> 30" by (simp add: s_def)
  then have "(2::nat) ^ s \<le> 2 ^ 30" by (rule power_increasing) simp
  then have h: "(2::nat) ^ s div 2 < 900000000" by simp
  from assms(2) have "Suc (numer r) \<le> p" by (simp add: p_def)
  then have "Suc (numer r) * 900000000 \<le> p * 900000000" by (rule mult_le_mono1)
  then have b: "n + 900000000 \<le> 900000000 * p" by (simp add: n_def mult.commute)
  from roundHalfEven_le [of n s] h b have "roundHalfEven n s * 2 ^ s < 900000000 * p"
    by linarith
  then have "(roundHalfEven n s * 2 ^ s) div p < 900000000"
    by (rule less_mult_imp_div_less)
  then show ?thesis by (simp add: floorProduct_def Let_def n_def s_def p_def)
qed

lemma draw_range:
  assumes "isRandomDouble r"
  shows "100000000 \<le> randomNum r \<and> randomNum r \<le> 999999999"
proof -
  from assms have "floorProduct r 900000000 < 900000000"
    by (intro floorProduct_less) (simp_all add: isRandomDouble_def)
  then show ?thesis by (simp add: randomNum_def)
qed

lemma candidate_format:
  assumes "100000000 \<le> k" "k \<le> 999999999"
  shows "matches_IND9 (''IND'' @ decimal k)" and "matches_AZ3_d9 (''IND'' @ decimal k)"
    and "length (decimal k) = 9"
proof -
  from assms have "10 ^ 8 \<le> k" "k < 10 ^ Suc 8" by simp_all
  then have l: "length (decimal k) = Suc 8" by (rule length_decimal)
  then show "length (decimal k) = 9" by simp
  have u: "is_upper CHR ''I''" "is_upper CHR ''N''" "is_upper CHR ''D''"
    by (simp_all add: is_upper_def)
  from l show "matches_IND9 (''IND'' @ decimal k)"
    by (simp add: matches_IND9_def digits_decimal)
  from l u show "matches_AZ3_d9 (''IND'' @ decimal k)"
    by (simp add: matches_AZ3_d9_def digits_decimal)
qed

lemma generate_Some:
  "generateTrackingNumber rnd db i = Some tn \<Longrightarrow>
     \<exists>j\<ge>i. tn = candidate (rnd j) \<and> \<not> existsTrackingNumber db (candidate (rnd j))
       \<and> (\<forall>k. i \<le> k \<and> k < j \<longrightarrow> existsTrackingNumber db (candidate (rnd k)))"
proof (induction rule: generateTrackingNumber.raw_induct [rotated 1, consumes 1])
  case (1 gen rnd db i tn)
  show ?case
  proof (cases "existsTrackingNumber db (candidate (rnd i))")
    case False
    with 1(2) have "tn = candidate (rnd i)" by simp
    with False show ?thesis by (intro exI [of _ i]) auto
  next
    case True
    with 1(2) have "gen rnd db (Suc i) = Some tn" by simp
    from 1(1) [OF this] obtain j where j: "Suc i \<le> j" "tn = candidate (rnd j)"
      "\<not> existsTrackingNumber db (candidate (rnd j))"
      "\<forall>k. Suc i \<le> k \<and> k < j \<longrightarrow> existsTrackingNumber db (candidate (rnd k))"
      by blast
    have "\<forall>k. i \<le> k \<and> k < j \<longrightarrow> existsTrackingNumber db (candidate (rnd k))"
    proof (intro allI impI)
      fix k assume "i \<le> k \<and> k < j"
      then have "k = i \<or> (Suc i \<le> k \<and> k < j)" by arith
      with True j(4) show "existsTrackingNumber db (candidate (rnd k))" by blast
    qed
    with j show ?thesis by (intro exI [of _ j]) auto
  qed
qed

lemma generate_first:
  "\<not> existsTrackingNumber db (candidate (rnd j)) \<Longrightarrow>
   \<forall>k. i \<le> k \<and> k < j \<longrightarrow> existsTrackingNumber db (candidate (rnd k)) \<Longrightarrow> i \<le> j \<Longrightarrow>
     generateTrackingNumber rnd db i = Some (candidate (rnd j))"
proof (induction "j - i" arbitrary: i)
  case 0
  then have "i = j" by simp
  with 0 show ?case by (subst generateTrackingNumber.simps) simp
next
  case (Suc n)
  then have lt: "i < j" by arith
  with Suc.prems have c: "existsTrackingNumber db (candidate (rnd i))" by simp
  have "generateTrackingNumber rnd db (Suc i) = Some (candidate (rnd j))"
    using Suc.hyps(2) Suc.prems lt by (intro Suc.hyps(1)) auto
  with c show ?case by (subst generateTrackingNumber.simps) simp
qed

lemma generate_terminates:
  assumes "\<not> existsTrackingNumber db (candidate (rnd j))" "i \<le> j"
  shows "generateTrackingNumber rnd db i \<noteq> None"
proof -
  define P where "P k = (i \<le> k \<and> \<not> existsTrackingNumber db (candidate (rnd k)))" for k
  have "P j" using assms by (simp add: P_def)
  then have l: "P (Least P)" by (rule LeastI)
  have m: "\<And>k. k < Least P \<Longrightarrow> \<not> P k" by (rule not_less_Least)
  from l m have "generateTrackingNumber rnd db i = Some (candidate (rnd (Least P)))"
    by (intro generate_first) (auto simp: P_def)
  then show ?thesis by simp
qed

text \<open>
  Three draws evaluated: one half, a draw whose number is that of the example shipment,
  and a draw whose product is rounded up to the next integer before the floor is taken.
\<close>

lemma randomNum_half: "randomNum \<lparr>numer = 2, shift = 2\<rparr> = 550000000"
proof -
  have "bitlen (2 * 900000000) = 31" by (simp add: bitlen.simps)
  then show ?thesis by (simp add: randomNum_def floorProduct_def roundHalfEven_def Let_def)
qed

lemma randomNum_collide: "randomNum \<lparr>numer = 1749065, shift = 26\<rparr> = 123456789"
proof -
  have "bitlen (1749065 * 900000000) = 51" by (simp add: bitlen.simps)
  then show ?thesis by (simp add: randomNum_def floorProduct_def roundHalfEven_def Let_def)
qed

lemma randomNum_rounded_up:
  "isRandomDouble \<lparr>numer = 6492598029712030, shift = 67\<rparr>
   \<and> (6492598029712030 * 900000000) div 2 ^ 67 = (39595::nat)
   \<and> randomNum \<lparr>numer = 6492598029712030, shift = 67\<rparr> = 100039596"
proof -
  have "bitlen (6492598029712030 * 900000000) = 83" by (simp add: bitlen.simps)
  then show ?thesis
    by (simp add: isRandomDouble_def randomNum_def floorProduct_def roundHalfEven_def Let_def)
qed

lemma decimal_examples:
  "decimal 123456789 = ''123456789''" "decimal 550000000 = ''550000000''"
  by (simp_all add: decimal.simps digit_char_values)

section \<open>Progress after a tracking event\<close>

text \<open>
  C1, as stated: after every persisted \<open>addTrackingEvent\<close> the progress is the fixed
  mapping of the current status, unless the event's status is \<open>Exception\<close>. It fails on
  the shipment that \<open>POST /api/shipments\<close> stores for \<open>exBody\<close> (status Order Placed by
  default, progress 0 by default): an Order Placed event leaves the status unmodified, the
  hook does not run, and the progress stays 0 where the mapping says 10.
\<close>

theorem addTrackingEvent_progress_counterexample:
  "map_option snd (createShipment rnd0 [] exAgent exId exClock exBody) = Some [exShipment]
   \<and> findById exId [exShipment] = Some exShipment
   \<and> (case addTrackingEvent rnd0 [exShipment] 5000 5000 (exEvent OrderPlaced (Some 5000))
             exShipment of
         Some (Inr u, d', db') \<Rightarrow>
           currentStatus d' = OrderPlaced \<and> progress d' = 0 \<and> map progress db' = [0]
           \<and> fixedProgress (currentStatus d') = Some 10
       | _ \<Rightarrow> False)"
  by (simp add: createShipment_def validCreateBody_def validPartyBody_def digits_def
      newShipment_def initialEvent_def the_default_def toUpperCase_IND fixedProgress_def
      ex_defs ev_defs)

text \<open>
  C1, amended: for a stored shipment \<open>d\<close> and a persisted \<open>addTrackingEvent\<close> whose event
  has the status \<open>st\<close>, the status becomes \<open>st\<close>; the progress becomes the fixed mapping of
  \<open>st\<close> when \<open>st\<close> differs from the status before and is not \<open>Exception\<close>, and keeps its
  value when \<open>st\<close> is \<open>Exception\<close> or is the status the shipment already had. So a shipment
  whose progress agreed with its status before the call has, after it, the mapping of
  \<open>st\<close> (for \<open>st\<close> other than \<open>Exception\<close>), and agrees again.
\<close>

theorem addTrackingEvent_progress:
  assumes "findById oid db = Some d"
    and "ev_status e = Some st"
    and "addTrackingEvent rnd db t1 t2 e d = Some (Inr (), d', db')"
  shows "findById oid db' = Some d'
     \<and> currentStatus d' = st
     \<and> progress d' =
         (if st = currentStatus d then progress d
          else case fixedProgress st of Some v \<Rightarrow> v | None \<Rightarrow> progress d)
     \<and> (st = Exception \<longrightarrow> progress d' = progress d)
     \<and> (consistent d \<and> st \<noteq> Exception \<longrightarrow> fixedProgress st = Some (progress d'))
     \<and> (consistent d \<longrightarrow> consistent d')"
proof -
  from assms(1) have hyd: "shipment_id d = oid" "\<not> isNew d" "\<not> modifiedCurrentStatus d"
    by (auto dest: findById_hydrated)
  from assms(3) have d': "d' = stored (preSaveProgress (applyEvent t1 t2 e d))"
    and found: "findById (shipment_id d) db' = Some d'"
    by (auto dest: addTrackingEvent_ok)
  have st: "currentStatus d' = st"
    unfolding d' using assms(2) by (rule status_applyEvent)
  have pr: "progress d' =
      (if st = currentStatus d then progress d
       else case fixedProgress st of Some v \<Rightarrow> v | None \<Rightarrow> progress d)"
    unfolding d' using assms(2) hyd(2,3) by (rule progress_applyEvent)
  have ex: "st = Exception \<longrightarrow> progress d' = progress d"
    using pr by (simp add: fixedProgress_def)
  have fx: "consistent d \<and> st \<noteq> Exception \<longrightarrow> fixedProgress st = Some (progress d')"
    using pr by (cases st) (auto simp: consistent_def fixedProgress_def)
  have "consistent d \<longrightarrow> consistent d'"
    using fx ex st by (auto simp: consistent_def)
  with found hyd(1) st pr ex fx show ?thesis by simp
qed

theorem addTrackingEvent_progress_witness:
  "findById exId [exInTransit] = Some exInTransit
   \<and> consistent exInTransit
   \<and> addTrackingEvent rnd0 [exInTransit] 3000 3000 (exEvent OutForDelivery (Some 3000))
        exInTransit = Some (Inr (), exOutForDelivery, [exOutForDelivery])
   \<and> currentStatus exOutForDelivery = OutForDelivery
   \<and> fixedProgress OutForDelivery = Some (progress exOutForDelivery)
   \<and> consistent exOutForDelivery"
proof -
  have h1: "findById exId [exInTransit] = Some exInTransit"
    by (simp add: ex_defs ev_defs)
  have h2: "ev_status (exEvent OutForDelivery (Some 3000)) = Some OutForDelivery"
    by (simp add: exEvent_def)
  have h3: "addTrackingEvent rnd0 [exInTransit] 3000 3000 (exEvent OutForDelivery (Some 3000))
      exInTransit = Some (Inr (), exOutForDelivery, [exOutForDelivery])"
    by (simp add: ex_defs ev_defs)
  have c: "consistent exInTransit"
    by (simp add: consistent_def fixedProgress_def ex_defs)
  from addTrackingEvent_progress [OF h1 h2 h3] c h1 h3 show ?thesis by simp
qed

section \<open>Terminal timestamps\<close>

text \<open>
  C2: \<open>addTrackingEvent\<close> always returns; when the event's status is Delivered, Returned
  or Cancelled, the matching terminal timestamp of the document is the event's timestamp,
  or the clock read \<open>t_stamp\<close> when the event carries none, and for Cancelled the
  cancellation reason is the event's description; the pushed event is the last of the
  sequence, and a call that succeeded has stored the document.
\<close>

theorem addTrackingEvent_terminal_stamp:
  "\<exists>r d' db'. addTrackingEvent rnd db t_push t_stamp e d = Some (r, d', db')
     \<and> (ev_status e = Some Delivered \<longrightarrow>
          deliveredAt d' = Some (case ev_timestamp e of Some t \<Rightarrow> t | None \<Rightarrow> t_stamp))
     \<and> (ev_status e = Some Returned \<longrightarrow>
          returnedAt d' = Some (case ev_timestamp e of Some t \<Rightarrow> t | None \<Rightarrow> t_stamp))
     \<and> (ev_status e = Some Cancelled \<longrightarrow>
          cancelledAt d' = Some (case ev_timestamp e of Some t \<Rightarrow> t | None \<Rightarrow> t_stamp)
          \<and> cancellationReason d' = Some (ev_description e))
     \<and> tracking d' =
          tracking d @
            [e\<lparr>ev_timestamp := Some (case ev_timestamp e of Some t \<Rightarrow> t | None \<Rightarrow> t_push)\<rparr>]
     \<and> (r = Inr () \<longrightarrow> findById (shipment_id d) db' = Some d')
     \<and> (r \<noteq> Inr () \<longrightarrow> db' = db)"
proof -
  obtain r d' db' where res: "addTrackingEvent rnd db t_push t_stamp e d = Some (r, d', db')"
    by (cases "addTrackingEvent rnd db t_push t_stamp e d")
      (auto simp: addTrackingEvent_cases)
  let ?a = "applyEvent t_push t_stamp e d"
  from res have d': "d' = ?a \<or> d' = preSaveProgress ?a \<or> d' = stored (preSaveProgress ?a)"
    by (rule addTrackingEvent_result)
  have dl: "ev_status e = Some Delivered \<longrightarrow>
      deliveredAt d' = Some (case ev_timestamp e of Some t \<Rightarrow> t | None \<Rightarrow> t_stamp)"
    using d' applyEvent_stamps(1) [of e t_push t_stamp d]
    by (auto simp: stored_stamps preSaveProgress_stamps orNow_def)
  have rt: "ev_status e = Some Returned \<longrightarrow>
      returnedAt d' = Some (case ev_timestamp e of Some t \<Rightarrow> t | None \<Rightarrow> t_stamp)"
    using d' applyEvent_stamps(2) [of e t_push t_stamp d]
    by (auto simp: stored_stamps preSaveProgress_stamps orNow_def)
  have cn: "ev_status e = Some Cancelled \<longrightarrow>
      cancelledAt d' = Some (case ev_timestamp e of Some t \<Rightarrow> t | None \<Rightarrow> t_stamp)
      \<and> cancellationReason d' = Some (ev_description e)"
    using d' applyEvent_stamps(3) [of e t_push t_stamp d]
    by (auto simp: stored_stamps preSaveProgress_stamps orNow_def)
  have tr: "tracking d' =
      tracking d @
        [e\<lparr>ev_timestamp := Some (case ev_timestamp e of Some t \<Rightarrow> t | None \<Rightarrow> t_push)\<rparr>]"
    using d' by (auto simp: stored_stamps preSaveProgress_stamps applyEvent_tracking orNow_def)
  have ok: "r = Inr () \<longrightarrow> findById (shipment_id d) db' = Some d'"
    using res by (auto dest: addTrackingEvent_ok)
  have er: "r \<noteq> Inr () \<longrightarrow> db' = db"
    using res by (cases r) (auto simp: addTrackingEvent_cases split: if_splits dest: persist_error)
  from res dl rt cn tr ok er show ?thesis by blast
qed

theorem addTrackingEvent_terminal_stamp_witness:
  "addTrackingEvent rnd0 [exOutForDelivery] 4002 4003 (exEvent Delivered (Some 4000))
      exOutForDelivery = Some (Inr (), exDelivered, [exDelivered])
   \<and> currentStatus exDelivered = Delivered \<and> progress exDelivered = 100
   \<and> deliveredAt exDelivered = Some 4000
   \<and> findById exId [exDelivered] = Some exDelivered
   \<and> (case addTrackingEvent rnd0 [exOutForDelivery] 4002 4003 (exEvent Delivered None)
             exOutForDelivery of
         Some (Inr u, d', db') \<Rightarrow>
           deliveredAt d' = Some 4003 \<and> ev_timestamp (last (tracking d')) = Some 4002
       | _ \<Rightarrow> False)"
proof -
  have h: "addTrackingEvent rnd0 [exOutForDelivery] 4002 4003 (exEvent Delivered (Some 4000))
      exOutForDelivery = Some (Inr (), exDelivered, [exDelivered])"
    by (simp add: ex_defs ev_defs)
  have s: "ev_status (exEvent Delivered (Some 4000)) = Some Delivered"
      "ev_timestamp (exEvent Delivered (Some 4000)) = Some 4000"
      "shipment_id exOutForDelivery = exId"
    by (simp_all add: ex_defs)
  from addTrackingEvent_terminal_stamp
    [of rnd0 "[exOutForDelivery]" 4002 4003 "exEvent Delivered (Some 4000)" exOutForDelivery]
  have "deliveredAt exDelivered = Some 4000 \<and> findById exId [exDelivered] = Some exDelivered"
    unfolding h s by simp
  moreover have "(case addTrackingEvent rnd0 [exOutForDelivery] 4002 4003
        (exEvent Delivered None) exOutForDelivery of
      Some (Inr u, d', db') \<Rightarrow>
        deliveredAt d' = Some 4003 \<and> ev_timestamp (last (tracking d')) = Some 4002
    | _ \<Rightarrow> False)"
    by (simp add: ex_defs ev_defs)
  ultimately show ?thesis using h by (simp add: ex_defs)
qed

section \<open>Delivery attempts\<close>



section \<open>The event sequence\<close>

text \<open>
  Where the request body carries no tracking events, a created shipment has exactly one
  event, the synthetic Order Placed one, whose location is the sender's city and state;
  each accepted request to append an event thereafter adds that event at the end of the
  stored sequence and a rejected one changes nothing, so \<open>N\<close> accepted requests give
  \<open>1 + N\<close> events in the order of the requests.
\<close>

lemma created_then_appended:
  assumes "createShipment rnd db u oid clk b = Some (Created201 v, db1)"
    and "b_tracking b = []"
  shows "\<exists>d1 db2 d2.
          db1 = db @ [d1] \<and> findById oid db1 = Some d1
        \<and> tracking d1 = [initialEvent (c_event clk) b]
        \<and> ev_status (initialEvent (c_event clk) b) = Some OrderPlaced
        \<and> ev_location (initialEvent (c_event clk) b) =
            city (party_address (b_sender b)) @ '', '' @ state (party_address (b_sender b))
        \<and> putTrackings rnd db1 u' oid calls = Some db2 \<and> findById oid db2 = Some d2
        \<and> tracking d2 =
            initialEvent (c_event clk) b
              # map (\<lambda>(now, rq). trackingData u' now rq)
                  (filter (\<lambda>(now, rq). validTrackingBody rq) calls)
        \<and> (list_all (\<lambda>(now, rq). validTrackingBody rq) calls \<longrightarrow>
             length (tracking d2) = 1 + length calls)"
proof -
  from createShipment_created [OF assms(1)] assms(2) obtain d1 where
    d1: "db1 = db @ [d1]" "findById oid db1 = Some d1" "validateSync d1"
    and t1: "tracking d1 = [initialEvent (c_event clk) b]"
    by auto
  from putTrackings_tracking [OF d1(2,3), of rnd u' calls] obtain db2 d2 where
    p: "putTrackings rnd db1 u' oid calls = Some db2" "findById oid db2 = Some d2"
    and t2: "tracking d2 =
      tracking d1 @ map (\<lambda>(now, rq). trackingData u' now rq)
                      (filter (\<lambda>(now, rq). validTrackingBody rq) calls)"
    by blast
  have i: "ev_status (initialEvent (c_event clk) b) = Some OrderPlaced"
    "ev_location (initialEvent (c_event clk) b) =
       city (party_address (b_sender b)) @ '', '' @ state (party_address (b_sender b))"
    by (simp_all add: initialEvent_def)
  have t3: "tracking d2 =
      initialEvent (c_event clk) b
        # map (\<lambda>(now, rq). trackingData u' now rq)
            (filter (\<lambda>(now, rq). validTrackingBody rq) calls)"
    using t1 t2 by simp
  have n: "list_all (\<lambda>(now, rq). validTrackingBody rq) calls \<longrightarrow>
      length (tracking d2) = 1 + length calls"
  proof
    assume "list_all (\<lambda>(now, rq). validTrackingBody rq) calls"
    then have "filter (\<lambda>(now, rq). validTrackingBody rq) calls = calls"
      by (simp add: list_all_iff)
    with t3 show "length (tracking d2) = 1 + length calls" by simp
  qed
  from d1(1,2) t1 i p t3 n show ?thesis by blast
qed

text \<open>
  C4: a newly created shipment should hold exactly one event, the synthetic Order Placed
  one. The handler of \<open>POST /api/shipments\<close> hands the whole request body to the
  constructor, the \<open>tracking\<close> path with it, where the handler of \<open>PUT /:id/tracking\<close>
  takes the four fields it names: for \<open>exBody\<close> with one In Transit event in \<open>tracking\<close>
  the stored shipment has two events, the client's before the synthetic one, and for
  \<open>exBody\<close> itself it has the one.
\<close>

theorem createShipment_stores_body_tracking:
  "validCreateBody (exBody\<lparr>b_tracking := [exEvent InTransit (Some 500)]\<rparr>)
   \<and> (case createShipment rnd0 [] exAgent exId exClock
             (exBody\<lparr>b_tracking := [exEvent InTransit (Some 500)]\<rparr>) of
         Some (Created201 v, [d]) \<Rightarrow>
           length (tracking d) = 2
           \<and> map ev_status (tracking d) = [Some InTransit, Some OrderPlaced]
           \<and> tracking d = [exEvent InTransit (Some 500), exPlaced]
       | _ \<Rightarrow> False)
   \<and> (case createShipment rnd0 [] exAgent exId exClock exBody of
         Some (Created201 v, [d]) \<Rightarrow> tracking d = [exPlaced]
       | _ \<Rightarrow> False)"
  by (simp add: createShipment_def validCreateBody_def validPartyBody_def digits_def
      newShipment_def initialEvent_def the_default_def toUpperCase_IND ex_defs ev_defs)

text \<open>
  The shipment created for \<open>exBody\<close> and two accepted requests: three stored events, the
  synthetic one first.
\<close>

lemma created_then_appended_example:
  "createShipment rnd0 [] exAgent exId exClock exBody
     = Some (Created201 exCreatedView, [exShipment])
   \<and> (\<exists>db2 d2. putTrackings rnd0 [exShipment] exAgent exId exCalls = Some db2
         \<and> findById exId db2 = Some d2
         \<and> tracking d2 = exPlaced # map (\<lambda>(now, rq). trackingData exAgent now rq) exCalls
         \<and> length (tracking d2) = 3)"
proof -
  have h: "createShipment rnd0 [] exAgent exId exClock exBody
      = Some (Created201 exCreatedView, [exShipment])"
    by (simp add: createShipment_def validCreateBody_def validPartyBody_def digits_def
        newShipment_def initialEvent_def the_default_def toUpperCase_IND exCreatedView_def
        ex_defs ev_defs)
  have b: "b_tracking exBody = []" by (simp add: exBody_def)
  have c: "filter (\<lambda>(now, rq). validTrackingBody rq) exCalls = exCalls"
    by (simp add: exCalls_def validTrackingBody_def)
  have l: "length exCalls = 2" by (simp add: exCalls_def)
  have i: "initialEvent (c_event exClock) exBody = exPlaced"
    by (simp add: initialEvent_def ex_defs)
  from created_then_appended [OF h b, of exAgent exCalls]
  obtain db2 d2 where p: "putTrackings rnd0 [exShipment] exAgent exId exCalls = Some db2"
      "findById exId db2 = Some d2"
    and t: "tracking d2 =
      initialEvent (c_event exClock) exBody
        # map (\<lambda>(now, rq). trackingData exAgent now rq)
            (filter (\<lambda>(now, rq). validTrackingBody rq) exCalls)"
    by blast
  from t have "tracking d2 = exPlaced # map (\<lambda>(now, rq). trackingData exAgent now rq) exCalls"
    by (simp add: c i)
  moreover from this have "length (tracking d2) = 3" by (simp add: l)
  ultimately show ?thesis using h p by blast
qed

section \<open>Generated tracking numbers\<close>

text \<open>
  The hook on its own, for a new document without a tracking number and draws that are
  values of \<open>Math.random()\<close>: when it returns, the number it assigns is \<open>IND\<close> followed by
  the decimal digits of a number between 100000000 and 999999999, nine digits, so it
  matches \<open>^[A-Z]{3}\d{9}$\<close>; no stored shipment, active or not, has that number; it comes
  from the first draw that collides with no stored number, every draw before it having
  collided; and the hook returns whenever some draw collides with no stored number.
\<close>

lemma preSaveTrackingNumber_generates:
  assumes "\<forall>i. isRandomDouble (rnd i)"
    and "isNew d"
    and "trackingNumber d = None"
  shows "(\<forall>d'. preSaveTrackingNumber rnd db d = Some d' \<longrightarrow>
            (\<exists>j k. k = randomNum (rnd j)
               \<and> 100000000 \<le> k \<and> k \<le> 999999999
               \<and> d' = d\<lparr>trackingNumber := Some (''IND'' @ decimal k)\<rparr>
               \<and> length (decimal k) = 9 \<and> list_all is_digit (decimal k)
               \<and> matches_AZ3_d9 (''IND'' @ decimal k) \<and> matches_IND9 (''IND'' @ decimal k)
               \<and> (\<forall>s\<in>set db. trackingNumber s \<noteq> Some (''IND'' @ decimal k))
               \<and> (\<forall>i<j. \<exists>s\<in>set db. trackingNumber s = Some (candidate (rnd i)))))
     \<and> ((\<exists>j. \<forall>s\<in>set db. trackingNumber s \<noteq> Some (candidate (rnd j))) \<longrightarrow>
            preSaveTrackingNumber rnd db d \<noteq> None)"
proof (intro conjI allI impI)
  fix d'
  assume "preSaveTrackingNumber rnd db d = Some d'"
  with assms(2,3) obtain tn where g: "generateTrackingNumber rnd db 0 = Some tn"
    and d': "d' = d\<lparr>trackingNumber := Some tn\<rparr>"
    by (auto simp: preSaveTrackingNumber_def)
  from generate_Some [OF g] obtain j where tn: "tn = candidate (rnd j)"
    and fresh: "\<not> existsTrackingNumber db (candidate (rnd j))"
    and before: "\<forall>k. 0 \<le> k \<and> k < j \<longrightarrow> existsTrackingNumber db (candidate (rnd k))"
    by blast
  define k where "k = randomNum (rnd j)"
  have c: "candidate (rnd j) = ''IND'' @ decimal k"
    by (simp add: candidate_def k_def)
  from assms(1) have r: "isRandomDouble (rnd j)" by simp
  from draw_range [OF r] have k: "100000000 \<le> k" "k \<le> 999999999"
    by (simp_all add: k_def)
  note f = candidate_format [OF k]
  have u: "\<forall>s\<in>set db. trackingNumber s \<noteq> Some (''IND'' @ decimal k)"
    using fresh by (simp add: c existsTrackingNumber_def list_ex_iff)
  have b: "\<forall>i<j. \<exists>s\<in>set db. trackingNumber s = Some (candidate (rnd i))"
    using before by (simp add: existsTrackingNumber_def list_ex_iff)
  from k f u b digits_decimal [of k] d' tn c
  show "\<exists>j k. k = randomNum (rnd j)
      \<and> 100000000 \<le> k \<and> k \<le> 999999999
      \<and> d' = d\<lparr>trackingNumber := Some (''IND'' @ decimal k)\<rparr>
      \<and> length (decimal k) = 9 \<and> list_all is_digit (decimal k)
      \<and> matches_AZ3_d9 (''IND'' @ decimal k) \<and> matches_IND9 (''IND'' @ decimal k)
      \<and> (\<forall>s\<in>set db. trackingNumber s \<noteq> Some (''IND'' @ decimal k))
      \<and> (\<forall>i<j. \<exists>s\<in>set db. trackingNumber s = Some (candidate (rnd i)))"
    unfolding k_def by (intro exI [of _ j] exI [of _ k]) (simp add: k_def)
next
  assume "\<exists>j. \<forall>s\<in>set db. trackingNumber s \<noteq> Some (candidate (rnd j))"
  then obtain j where "\<not> existsTrackingNumber db (candidate (rnd j))"
    by (auto simp: existsTrackingNumber_def list_ex_iff)
  then have "generateTrackingNumber rnd db 0 \<noteq> None"
    by (rule generate_terminates) simp
  with assms(2,3) show "preSaveTrackingNumber rnd db d \<noteq> None"
    by (simp add: preSaveTrackingNumber_def)
qed

lemma exGenerated:
  "preSaveTrackingNumber rndCollide [exShipment] exUnnumbered
     = Some (exUnnumbered\<lparr>trackingNumber := Some ''IND550000000''\<rparr>)"
proof -
  have n: "isNew exUnnumbered" "trackingNumber exUnnumbered = None"
    by (simp_all add: exUnnumbered_def)
  have c0: "candidate (rndCollide 0) = ''IND123456789''"
    by (simp add: rndCollide_def candidate_def randomNum_collide decimal_examples)
  have c1: "candidate (rndCollide (Suc 0)) = ''IND550000000''"
    by (simp add: rndCollide_def candidate_def randomNum_half decimal_examples)
  have t: "trackingNumber exShipment = Some ''IND123456789''"
    by (simp add: exShipment_def)
  have "generateTrackingNumber rndCollide [exShipment] 0
      = Some (candidate (rndCollide (Suc 0)))"
    by (rule generate_first) (auto simp: existsTrackingNumber_def c0 c1 t)
  then show ?thesis using n by (simp add: preSaveTrackingNumber_def c1)
qed

text \<open>
  Through \<open>save\<close> the hook is never reached without a tracking number: validation comes
  first and the path is required. So a request without a tracking number creates nothing,
  and the number of every created shipment is the client's, uppercased.
\<close>

lemma createShipment_without_number:
  assumes "b_trackingNumber b = None"
  shows "createShipment rnd db u oid clk b =
     Some (if validCreateBody b then CreateServerError500 else CreateBadRequest400, db)"
proof -
  let ?d0 = "newShipment oid clk (user_id u) b"
  let ?d1 = "?d0\<lparr>tracking := tracking ?d0 @ [initialEvent (c_event clk) b]\<rparr>"
  from assms have "trackingNumber ?d1 = None" by (simp add: newShipment_def)
  then have "save rnd db ?d1 = Some (Inl ValidationError, ?d1, db)"
    by (rule save_new_without_number)
  then show ?thesis by (simp add: createShipment_def Let_def)
qed

lemma created_number_is_clients:
  assumes "createShipment rnd db u oid clk b = Some (Created201 v, db')"
  shows "\<exists>tn. b_trackingNumber b = Some tn \<and> cv_trackingNumber v = Some (toUpperCase tn)"
proof (cases "b_trackingNumber b")
  case None
  from createShipment_without_number [OF this, of rnd db u oid clk] assms show ?thesis
    by (simp split: if_splits)
next
  case (Some tn)
  let ?d0 = "newShipment oid clk (user_id u) b"
  let ?d1 = "?d0\<lparr>tracking := tracking ?d0 @ [initialEvent (c_event clk) b]\<rparr>"
  from assms obtain x d' where s: "save rnd db ?d1 = Some (Inr x, d', db')"
    and v: "cv_trackingNumber v = trackingNumber d'"
    by (auto simp: createShipment_def Let_def split: if_splits option.splits sum.splits)
  from s have "d' = stored (preSaveProgress ?d1)"
    by (auto simp: save_cases split: if_splits dest: persist_ok)
  then have "trackingNumber d' = Some (toUpperCase tn)"
    by (auto simp: stored_def preSaveProgress_def newShipment_def Some split: option.splits)
  with v Some show ?thesis by simp
qed

text \<open>
  C5: a shipment created without a client-supplied tracking number should get a generated
  one, \<open>IND\<close> and nine digits, unlike every stored number. The code never creates it: for
  the valid body \<open>exBody\<close> without its tracking number the handler builds the document
  \<open>exUnnumbered\<close>, \<open>save\<close> refuses it in validation, before the hook that would have
  assigned \<open>IND550000000\<close> (the first draw colliding with the stored \<open>IND123456789\<close>), the
  answer is 500 and the collection is unchanged.
\<close>

theorem createShipment_without_number_fails:
  "validCreateBody (exBody\<lparr>b_trackingNumber := None\<rparr>)
   \<and> (let d0 = newShipment (ObjectId ''65f000000000000000000b02'') exClock (user_id exAgent)
                  (exBody\<lparr>b_trackingNumber := None\<rparr>)
        in d0\<lparr>tracking := tracking d0
                 @ [initialEvent (c_event exClock) (exBody\<lparr>b_trackingNumber := None\<rparr>)]\<rparr>)
       = exUnnumbered
   \<and> save rndCollide [exShipment] exUnnumbered
       = Some (Inl ValidationError, exUnnumbered, [exShipment])
   \<and> createShipment rndCollide [exShipment] exAgent (ObjectId ''65f000000000000000000b02'')
        exClock (exBody\<lparr>b_trackingNumber := None\<rparr>)
       = Some (CreateServerError500, [exShipment])
   \<and> preSaveTrackingNumber rndCollide [exShipment] exUnnumbered
       = Some (exUnnumbered\<lparr>trackingNumber := Some ''IND550000000''\<rparr>)"
proof -
  have v: "validCreateBody (exBody\<lparr>b_trackingNumber := None\<rparr>)"
    by (simp add: validCreateBody_def validPartyBody_def digits_def is_digit_def ex_defs)
  have d: "(let d0 = newShipment (ObjectId ''65f000000000000000000b02'') exClock
                  (user_id exAgent) (exBody\<lparr>b_trackingNumber := None\<rparr>)
        in d0\<lparr>tracking := tracking d0
                 @ [initialEvent (c_event exClock) (exBody\<lparr>b_trackingNumber := None\<rparr>)]\<rparr>)
      = exUnnumbered"
    by (simp add: newShipment_def initialEvent_def the_default_def exUnnumbered_def ex_defs)
  have s: "save rndCollide [exShipment] exUnnumbered
      = Some (Inl ValidationError, exUnnumbered, [exShipment])"
    by (simp add: save_def validateSync_def exUnnumbered_def)
  have c: "createShipment rndCollide [exShipment] exAgent (ObjectId ''65f000000000000000000b02'')
        exClock (exBody\<lparr>b_trackingNumber := None\<rparr>)
      = Some (CreateServerError500, [exShipment])"
    using v by (simp add: createShipment_without_number)
  from v d s c exGenerated show ?thesis by simp
qed

section \<open>The anonymous view\<close>

lemma find_publiclyEqual:
  assumes "list_all2 R xs ys" and "\<And>x y. R x y \<Longrightarrow> P x = Q y"
  shows "rel_option R (find P xs) (find Q ys)"
  using assms by (induction rule: list_all2_induct) auto

lemma publicEvents_equal:
  "list_all2 publiclyEqualEvent es es' \<Longrightarrow> map publicEventOf es = map publicEventOf es'"
  by (induction rule: list_all2_induct) (auto simp: publiclyEqualEvent_def publicEventOf_def)

lemma publicViewOf_equal:
  "publiclyEqual s s' \<Longrightarrow> publicViewOf now (hydrate s) = publicViewOf now (hydrate s')"
  by (simp add: publiclyEqual_def publicViewOf_def hydrate_def isDelayed_def
      publicEvents_equal)

lemma trackShipment_anonymous:
  "trackShipment us db now None tn =
     (if \<not> matches_IND9 tn then TrackBadRequest400
      else case find (\<lambda>s. trackingNumber s = Some (toUpperCase tn) \<and> isActive s) db of
             None \<Rightarrow> TrackNotFound404
           | Some s \<Rightarrow> TrackPublic (publicViewOf now (hydrate s)))"
  by (simp add: trackShipment_def findByTrackingNumber_def findOne_def populate_def
      split: option.splits)

text \<open>
  C6: the answer to an anonymous lookup is a rejection, not-found, or a public view,
  whose fields are the tracking number, status, progress, the events reduced to status,
  location, description and timestamp, the estimated delivery, the delay flag and the
  service type, never the full view; and two collections whose shipments may not be told
  apart by an anonymous caller, whatever their senders, recipients, packages, service
  terms, event agents, event coordinates and accounts are, get the same answer.
\<close>

theorem trackShipment_anonymous_noninterference:
  assumes "list_all2 publiclyEqual db db'"
  shows "trackShipment us db now None tn = trackShipment us' db' now None tn
     \<and> (\<forall>v. trackShipment us db now None tn \<noteq> TrackFull v)
     \<and> (\<forall>v. trackShipment us db now None tn = TrackPublic v \<longrightarrow>
           (\<exists>s\<in>set db. isActive s \<and> trackingNumber s = Some (toUpperCase tn)
              \<and> v = \<lparr>pv_trackingNumber = trackingNumber s,
                     pv_currentStatus = currentStatus s,
                     pv_progress = progress s,
                     pv_tracking = map publicEventOf (tracking s),
                     pv_estimatedDelivery = estimatedDelivery (service s),
                     pv_isDelayed = isDelayed now s,
                     pv_serviceType = svc_type (service s)\<rparr>))"
proof -
  let ?q = "\<lambda>s. trackingNumber s = Some (toUpperCase tn) \<and> isActive s"
  have "rel_option publiclyEqual (find ?q db) (find ?q db')"
    using assms by (rule find_publiclyEqual) (simp add: publiclyEqual_def)
  then have eq: "trackShipment us db now None tn = trackShipment us' db' now None tn"
    unfolding trackShipment_anonymous
    by (cases "find ?q db"; cases "find ?q db'") (auto dest: publicViewOf_equal)
  have nf: "\<forall>v. trackShipment us db now None tn \<noteq> TrackFull v"
    by (simp add: trackShipment_anonymous split: option.splits)
  have pv: "\<forall>v. trackShipment us db now None tn = TrackPublic v \<longrightarrow>
      (\<exists>s\<in>set db. isActive s \<and> trackingNumber s = Some (toUpperCase tn)
         \<and> v = \<lparr>pv_trackingNumber = trackingNumber s,
                pv_currentStatus = currentStatus s,
                pv_progress = progress s,
                pv_tracking = map publicEventOf (tracking s),
                pv_estimatedDelivery = estimatedDelivery (service s),
                pv_isDelayed = isDelayed now s,
                pv_serviceType = svc_type (service s)\<rparr>)"
    by (auto simp: trackShipment_anonymous publicViewOf_def hydrate_def isDelayed_def
        split: if_splits option.splits dest!: find_Some_mem)
  from eq nf pv show ?thesis by blast
qed

theorem trackShipment_anonymous_noninterference_witness:
  "list_all2 publiclyEqual [exInTransit] [exHidden]
   \<and> sender exInTransit \<noteq> sender exHidden
   \<and> package exInTransit \<noteq> package exHidden
   \<and> map ev_agent (tracking exInTransit) \<noteq> map ev_agent (tracking exHidden)
   \<and> trackShipment [exAgent] [exInTransit] 5000 None ''IND123456789''
       = trackShipment [exRavi] [exHidden] 5000 None ''IND123456789''
   \<and> trackShipment [exAgent] [exInTransit] 5000 None ''IND123456789''
       = TrackPublic
           \<lparr>pv_trackingNumber = Some ''IND123456789'', pv_currentStatus = InTransit,
            pv_progress = 50,
            pv_tracking =
              [\<lparr>pe_status = Some OrderPlaced, pe_location = ''Mumbai, Maharashtra'',
                pe_description = ''Shipment order has been placed and is being processed'',
                pe_timestamp = Some 1000\<rparr>,
               \<lparr>pe_status = Some InTransit, pe_location = ''Pune Hub'',
                pe_description = ''Scanned at facility'', pe_timestamp = Some 2000\<rparr>],
            pv_estimatedDelivery = Some 172801000, pv_isDelayed = False,
            pv_serviceType = NextDay\<rparr>"
proof -
  have h: "list_all2 publiclyEqual [exInTransit] [exHidden]"
    by (simp add: publiclyEqual_def publiclyEqualEvent_def exHidden_def ex_defs)
  have d: "sender exInTransit \<noteq> sender exHidden" "package exInTransit \<noteq> package exHidden"
    "map ev_agent (tracking exInTransit) \<noteq> map ev_agent (tracking exHidden)"
    by (simp_all add: exHidden_def ex_defs)
  have v: "trackShipment [exAgent] [exInTransit] 5000 None ''IND123456789''
      = TrackPublic
          \<lparr>pv_trackingNumber = Some ''IND123456789'', pv_currentStatus = InTransit,
           pv_progress = 50,
           pv_tracking =
             [\<lparr>pe_status = Some OrderPlaced, pe_location = ''Mumbai, Maharashtra'',
               pe_description = ''Shipment order has been placed and is being processed'',
               pe_timestamp = Some 1000\<rparr>,
              \<lparr>pe_status = Some InTransit, pe_location = ''Pune Hub'',
               pe_description = ''Scanned at facility'', pe_timestamp = Some 2000\<rparr>],
           pv_estimatedDelivery = Some 172801000, pv_isDelayed = False,
           pv_serviceType = NextDay\<rparr>"
    by (simp add: trackShipment_anonymous toUpperCase_IND publicViewOf_def publicEventOf_def
        isDelayed_def matches_IND9_def is_digit_def hydrate_def ex_defs)
  from trackShipment_anonymous_noninterference
    [OF h, of "[exAgent]" 5000 "''IND123456789''" "[exRavi]"]
  have "trackShipment [exAgent] [exInTransit] 5000 None ''IND123456789''
      = trackShipment [exRavi] [exHidden] 5000 None ''IND123456789''"
    by blast
  with h d v show ?thesis by simp
qed

section \<open>Case-insensitive lookup\<close>

lemma upper_char_idem: "upper_char (upper_char c) = upper_char c"
proof (cases "(97::nat) \<le> of_char c \<and> (of_char c :: nat) \<le> 122")
  case True
  then have "(of_char c :: nat) - 32 < 256" by arith
  with True have "(of_char (upper_char c) :: nat) = of_char c - 32"
    by (simp add: upper_char_def)
  with True have "\<not> ((97::nat) \<le> of_char (upper_char c) \<and> (of_char (upper_char c) :: nat) \<le> 122)"
    by arith
  then show ?thesis by (rule upper_char_fixed)
next
  case False
  then show ?thesis by (simp add: upper_char_fixed)
qed

lemma toUpperCase_idem: "toUpperCase (toUpperCase s) = toUpperCase s"
  by (simp add: toUpperCase_def upper_char_idem)

text \<open>
  C7: \<open>findByTrackingNumber\<close> looks for the uppercased input, so inputs that differ only
  in the case of their letters find the same shipment; what it finds is a stored, active
  shipment with that tracking number; and it returns the absent result, not an error,
  exactly when no active shipment has the uppercased input as its tracking number.
\<close>

theorem findByTrackingNumber_lookup:
  "findByTrackingNumber us db tn = findByTrackingNumber us db (toUpperCase tn)
   \<and> (toUpperCase tn = toUpperCase tn' \<longrightarrow>
        findByTrackingNumber us db tn = findByTrackingNumber us db tn')
   \<and> (\<forall>p. findByTrackingNumber us db tn = Some p \<longrightarrow>
        isActive (pop_doc p) \<and> trackingNumber (pop_doc p) = Some (toUpperCase tn)
        \<and> (\<exists>s\<in>set db. pop_doc p = hydrate s))
   \<and> (findByTrackingNumber us db tn = None \<longleftrightarrow>
        \<not> (\<exists>s\<in>set db. isActive s \<and> trackingNumber s = Some (toUpperCase tn)))"
proof -
  let ?q = "\<lambda>s. trackingNumber s = Some (toUpperCase tn) \<and> isActive s"
  have a: "findByTrackingNumber us db tn = findByTrackingNumber us db (toUpperCase tn)"
    by (simp add: findByTrackingNumber_def toUpperCase_idem)
  have b: "toUpperCase tn = toUpperCase tn' \<longrightarrow>
      findByTrackingNumber us db tn = findByTrackingNumber us db tn'"
    by (simp add: findByTrackingNumber_def)
  have c: "\<forall>p. findByTrackingNumber us db tn = Some p \<longrightarrow>
      isActive (pop_doc p) \<and> trackingNumber (pop_doc p) = Some (toUpperCase tn)
      \<and> (\<exists>s\<in>set db. pop_doc p = hydrate s)"
    by (auto simp: findByTrackingNumber_def findOne_def populate_def hydrate_def
        dest!: find_Some_mem)
  have d: "findByTrackingNumber us db tn = None \<longleftrightarrow>
      \<not> (\<exists>s\<in>set db. isActive s \<and> trackingNumber s = Some (toUpperCase tn))"
    by (auto simp: findByTrackingNumber_def findOne_def find_None_iff)
  from a b c d show ?thesis by blast
qed

theorem findByTrackingNumber_lookup_witness:
  "toUpperCase ''ind123456789'' = toUpperCase ''IND123456789''
   \<and> findByTrackingNumber [exAgent] [exInTransit] ''ind123456789''
       = findByTrackingNumber [exAgent] [exInTransit] ''IND123456789''
   \<and> map_option pop_doc (findByTrackingNumber [exAgent] [exInTransit] ''ind123456789'')
       = Some exInTransit
   \<and> findByTrackingNumber [exAgent] [exInTransit\<lparr>isActive := False\<rparr>] ''IND123456789'' = None
   \<and> findByTrackingNumber [exAgent] [exInTransit] ''IND000000000'' = None"
proof -
  have u: "toUpperCase ''ind123456789'' = ''IND123456789''"
    by (simp add: toUpperCase_def upper_char_values upper_char_fixed)
  then have e: "toUpperCase ''ind123456789'' = toUpperCase ''IND123456789''"
    by (simp add: toUpperCase_IND)
  have f: "map_option pop_doc (findByTrackingNumber [exAgent] [exInTransit] ''ind123456789'')
      = Some exInTransit"
    by (simp add: findByTrackingNumber_def u findOne_def populate_def hydrate_def ex_defs)
  have z: "toUpperCase ''IND000000000'' = ''IND000000000''"
    by (simp add: toUpperCase_def upper_char_fixed)
  note w = findByTrackingNumber_lookup
  from w [of "[exAgent]" "[exInTransit]" "''ind123456789''" "''IND123456789''"] e
  have s: "findByTrackingNumber [exAgent] [exInTransit] ''ind123456789''
      = findByTrackingNumber [exAgent] [exInTransit] ''IND123456789''"
    by blast
  have n1: "findByTrackingNumber [exAgent] [exInTransit\<lparr>isActive := False\<rparr>] ''IND123456789''
      = None"
    by (simp add: findByTrackingNumber_def findOne_def)
  have n2: "findByTrackingNumber [exAgent] [exInTransit] ''IND000000000'' = None"
    by (simp add: findByTrackingNumber_def findOne_def z ex_defs)
  from e s f n1 n2 show ?thesis by simp
qed

section \<open>Shipments of an account\<close>

text \<open>
  C8: \<open>findByUser(accountId)\<close> should return the active shipments that the account
  created or whose sender or recipient email is the account's registered email. The code
  compares the two emails with the account's identifier instead, where the query of
  \<open>GET /my\<close> compares them with the account's email: the shipment that Ravi sent, created
  by another account, is associated with Ravi and is in the query of \<open>GET /my\<close>, and
  \<open>findByUser\<close> of Ravi's identifier does not return it.
\<close>

theorem findByUser_misses_email_match:
  "isActive exShipment
   \<and> party_email (sender exShipment) = Some (email exRavi)
   \<and> associated exRavi exShipment
   \<and> myShipmentsQuery exRavi None exShipment
   \<and> findByUser (user_id exRavi) [exShipment] = []"
  by (simp add: associated_def myShipmentsQuery_def findByUser_def findByUserQuery_def
      newestFirst_def exRavi_def ex_defs)

section \<open>Account lockout\<close>

lemma lower_char_values: "lower_char CHR ''R'' = CHR ''r''"
  by code_simp

lemma lower_char_fixed:
  "\<not> ((65::nat) \<le> of_char c \<and> (of_char c :: nat) \<le> 90) \<Longrightarrow> lower_char c = c"
  by (auto simp: lower_char_def)

lemma toLowerCase_ravi: "toLowerCase ''Ravi@example.com'' = ''ravi@example.com''"
  by (simp add: toLowerCase_def lower_char_values lower_char_fixed)

lemma findUserById_updateOne:
  "(\<And>x. user_id (f x) = user_id x) \<Longrightarrow>
     findUserById uid (updateOne uid f us) = map_option f (findUserById uid us)"
  by (induction us) (auto simp: findUserById_def)

lemma find_distinct_id:
  "distinct (map user_id us) \<Longrightarrow> find P us = Some u \<Longrightarrow> findUserById (user_id u) us = Some u"
proof (induction us)
  case Nil
  then show ?case by simp
next
  case (Cons x xs)
  show ?case
  proof (cases "P x")
    case True
    with Cons.prems show ?thesis by (simp add: findUserById_def)
  next
    case False
    with Cons.prems have f: "find P xs = Some u" by simp
    then have "u \<in> set xs" by (auto dest: find_Some_mem)
    with Cons.prems(1) have "user_id x \<noteq> user_id u" by auto
    with Cons.IH [OF _ f] Cons.prems(1) show ?thesis by (simp add: findUserById_def)
  qed
qed

lemma incLoginAttempts_stored:
  assumes "findUserById (user_id u) us = Some u"
  shows "\<exists>u'. findUserById (user_id u) (incLoginAttempts t_expired t_locked t_set u us) = Some u'
     \<and> (if (case lockUntil u of None \<Rightarrow> False | Some l \<Rightarrow> l < t_expired)
        then loginAttempts u' = 1 \<and> lockUntil u' = None
        else loginAttempts u' = loginAttempts u + 1
           \<and> lockUntil u' =
               (if loginAttempts u + 1 \<ge> 5 \<and> \<not> isLocked t_locked u
                then Some (t_set + 7200000) else lockUntil u))"
  using assms
  by (simp add: incLoginAttempts_def findUserById_updateOne maxAttempts_def lockTime_def)

text \<open>
  C3: for an account that exists and is active (the stored accounts having distinct
  identifiers, the clock not running backwards between the lock check and the re-check
  inside \<open>incLoginAttempts\<close>): while \<open>lockUntil\<close> lies in the future the call fails with
  the locked-account error and changes nothing, whatever the password; otherwise a failed
  check sets the counter to 1 and clears the lock when a lock has expired, and else adds
  one to the counter and, when the counter so reaches 5 or more, sets \<open>lockUntil\<close> to
  the clock plus two hours; and a successful check returns the account, leaves the
  counter at 0, clears the lock when the counter was positive, and stamps \<open>lastLogin\<close>.
\<close>

theorem findByCredentials_lockout:
  assumes "distinct (map user_id us)"
    and "find (\<lambda>x. email x = toLowerCase mail \<and> user_isActive x) us = Some u"
    and "at_lockCheck clk \<le> at_locked clk"
  shows "(isLocked (at_lockCheck clk) u \<longrightarrow>
            findByCredentials compare clk us mail pw = (Inl AccountTemporarilyLocked, us))
     \<and> (\<not> isLocked (at_lockCheck clk) u \<and> \<not> compare pw (password u) \<longrightarrow>
          (\<exists>us' u'. findByCredentials compare clk us mail pw = (Inl InvalidLoginCredentials, us')
             \<and> findUserById (user_id u) us' = Some u'
             \<and> (if (case lockUntil u of None \<Rightarrow> False | Some l \<Rightarrow> l < at_expired clk)
                then loginAttempts u' = 1 \<and> lockUntil u' = None
                else loginAttempts u' = loginAttempts u + 1
                   \<and> lockUntil u' =
                       (if loginAttempts u + 1 \<ge> 5 then Some (at_set clk + 7200000)
                        else lockUntil u))))
     \<and> (\<not> isLocked (at_lockCheck clk) u \<and> compare pw (password u) \<longrightarrow>
          (\<exists>us' u'. findByCredentials compare clk us mail pw = (Inr u, us')
             \<and> findUserById (user_id u) us' = Some u'
             \<and> loginAttempts u' = 0 \<and> lastLogin u' = Some (at_lastLogin clk)
             \<and> (loginAttempts u > 0 \<longrightarrow> lockUntil u' = None)))"
proof -
  from assms(1,2) have st: "findUserById (user_id u) us = Some u"
    by (rule find_distinct_id)
  have locked: "isLocked (at_lockCheck clk) u \<longrightarrow>
      findByCredentials compare clk us mail pw = (Inl AccountTemporarilyLocked, us)"
    using assms(2) by (simp add: findByCredentials_def)
  have failed: "\<not> isLocked (at_lockCheck clk) u \<and> \<not> compare pw (password u) \<longrightarrow>
      (\<exists>us' u'. findByCredentials compare clk us mail pw = (Inl InvalidLoginCredentials, us')
         \<and> findUserById (user_id u) us' = Some u'
         \<and> (if (case lockUntil u of None \<Rightarrow> False | Some l \<Rightarrow> l < at_expired clk)
            then loginAttempts u' = 1 \<and> lockUntil u' = None
            else loginAttempts u' = loginAttempts u + 1
               \<and> lockUntil u' =
                   (if loginAttempts u + 1 \<ge> 5 then Some (at_set clk + 7200000)
                    else lockUntil u)))"
  proof
    assume a: "\<not> isLocked (at_lockCheck clk) u \<and> \<not> compare pw (password u)"
    with assms(3) have nl: "\<not> isLocked (at_locked clk) u"
      by (auto simp: isLocked_def split: option.splits)
    from a assms(2) have r: "findByCredentials compare clk us mail pw =
        (Inl InvalidLoginCredentials,
         incLoginAttempts (at_expired clk) (at_locked clk) (at_set clk) u us)"
      by (simp add: findByCredentials_def)
    from incLoginAttempts_stored [OF st, of "at_expired clk" "at_locked clk" "at_set clk"] nl r
    show "\<exists>us' u'. findByCredentials compare clk us mail pw = (Inl InvalidLoginCredentials, us')
         \<and> findUserById (user_id u) us' = Some u'
         \<and> (if (case lockUntil u of None \<Rightarrow> False | Some l \<Rightarrow> l < at_expired clk)
            then loginAttempts u' = 1 \<and> lockUntil u' = None
            else loginAttempts u' = loginAttempts u + 1
               \<and> lockUntil u' =
                   (if loginAttempts u + 1 \<ge> 5 then Some (at_set clk + 7200000)
                    else lockUntil u))"
      by auto
  qed
  have ok: "\<not> isLocked (at_lockCheck clk) u \<and> compare pw (password u) \<longrightarrow>
      (\<exists>us' u'. findByCredentials compare clk us mail pw = (Inr u, us')
         \<and> findUserById (user_id u) us' = Some u'
         \<and> loginAttempts u' = 0 \<and> lastLogin u' = Some (at_lastLogin clk)
         \<and> (loginAttempts u > 0 \<longrightarrow> lockUntil u' = None))"
    using assms(2) st
    by (auto simp: findByCredentials_def updateLastLogin_def resetLoginAttempts_def
        findUserById_updateOne)
  from locked failed ok show ?thesis by blast
qed

theorem findByCredentials_lockout_witness:
  "distinct (map user_id [exRavi\<lparr>loginAttempts := 4\<rparr>])
   \<and> find (\<lambda>x. email x = toLowerCase ''Ravi@example.com'' \<and> user_isActive x)
        [exRavi\<lparr>loginAttempts := 4\<rparr>] = Some (exRavi\<lparr>loginAttempts := 4\<rparr>)
   \<and> at_lockCheck (clockAt 5000) \<le> at_locked (clockAt 5000)
   \<and> \<not> isLocked 5000 (exRavi\<lparr>loginAttempts := 4\<rparr>)
   \<and> \<not> exCompare ''guess'' (password exRavi)
   \<and> (\<exists>us' u'. findByCredentials exCompare (clockAt 5000) [exRavi\<lparr>loginAttempts := 4\<rparr>]
           ''Ravi@example.com'' ''guess'' = (Inl InvalidLoginCredentials, us')
         \<and> findUserById (user_id exRavi) us' = Some u'
         \<and> loginAttempts u' = 5 \<and> lockUntil u' = Some 7205002)"
proof -
  let ?u = "exRavi\<lparr>loginAttempts := 4\<rparr>"
  have d: "distinct (map user_id [?u])" by simp
  have f: "find (\<lambda>x. email x = toLowerCase ''Ravi@example.com'' \<and> user_isActive x) [?u]
      = Some ?u"
    by (simp add: toLowerCase_ravi exRavi_def)
  have c: "at_lockCheck (clockAt 5000) \<le> at_locked (clockAt 5000)"
    by (simp add: clockAt_def)
  have n: "\<not> isLocked (at_lockCheck (clockAt 5000)) ?u \<and> \<not> exCompare ''guess'' (password ?u)"
    by (simp add: isLocked_def exCompare_def exRavi_def)
  from findByCredentials_lockout [OF d f c, of exCompare "''guess''"] n
  have "\<exists>us' u'. findByCredentials exCompare (clockAt 5000) [?u] ''Ravi@example.com'' ''guess''
        = (Inl InvalidLoginCredentials, us')
      \<and> findUserById (user_id exRavi) us' = Some u'
      \<and> loginAttempts u' = 5 \<and> lockUntil u' = Some 7205002"
    by (simp add: exRavi_def clockAt_def)
  with d f c n show ?thesis by (simp add: clockAt_def exRavi_def)
qed

text \<open>
  The specification's scenario: three failed logins leave the account unlocked with the
  counter at 3; two more bring it to 5 and lock the account for two hours; during the
  lock even the right password gets the locked-account error; after the lock has expired
  the right password is accepted, the counter is 0 again and \<open>lastLogin\<close> is stamped.
\<close>

lemma lockout_scenario:
  "exWrong 3000 (exWrong 2000 (exWrong 1000 [exRavi])) = [exRavi\<lparr>loginAttempts := 3\<rparr>]
   \<and> exWrong 5000 (exWrong 4000 [exRavi\<lparr>loginAttempts := 3\<rparr>])
       = [exRavi\<lparr>loginAttempts := 5, lockUntil := Some 7205002\<rparr>]
   \<and> findByCredentials exCompare (clockAt 6000)
        [exRavi\<lparr>loginAttempts := 5, lockUntil := Some 7205002\<rparr>] ''Ravi@example.com'' ''secret''
       = (Inl AccountTemporarilyLocked, [exRavi\<lparr>loginAttempts := 5, lockUntil := Some 7205002\<rparr>])
   \<and> findByCredentials exCompare (clockAt 7205002)
        [exRavi\<lparr>loginAttempts := 5, lockUntil := Some 7205002\<rparr>] ''Ravi@example.com'' ''secret''
       = (Inr (exRavi\<lparr>loginAttempts := 5, lockUntil := Some 7205002\<rparr>),
          [exRavi\<lparr>loginAttempts := 0, lockUntil := None, lastLogin := Some 7205005\<rparr>])"
  by (simp add: exWrong_def findByCredentials_def incLoginAttempts_def resetLoginAttempts_def
      updateLastLogin_def isLocked_def maxAttempts_def lockTime_def exCompare_def clockAt_def
      toLowerCase_ravi exRavi_def)

section \<open>Inactive accounts\<close>

text \<open>
  C10: when every stored account with the given email is inactive, \<open>findByCredentials\<close>
  fails with the invalid-credentials error, which is the error it gives when no account
  has the email at all, whatever the password is, and the stored accounts are unchanged.
\<close>

theorem findByCredentials_inactive:
  assumes "\<forall>x\<in>set us. email x = toLowerCase mail \<longrightarrow> \<not> user_isActive x"
  shows "findByCredentials compare clk us mail pw = (Inl InvalidLoginCredentials, us)
     \<and> fst (findByCredentials compare clk us mail pw)
         = fst (findByCredentials compare clk [] mail pw)"
proof -
  from assms have "find (\<lambda>x. email x = toLowerCase mail \<and> user_isActive x) us = None"
    by (auto simp: find_None_iff)
  then show ?thesis by (simp add: findByCredentials_def)
qed

theorem findByCredentials_inactive_witness:
  "\<not> user_isActive exInactive
   \<and> email exInactive = toLowerCase ''Ravi@example.com''
   \<and> exCompare ''secret'' (password exInactive)
   \<and> findByCredentials exCompare (clockAt 5000) [exInactive] ''Ravi@example.com'' ''secret''
       = (Inl InvalidLoginCredentials, [exInactive])
   \<and> findByCredentials exCompare (clockAt 5000) [] ''Ravi@example.com'' ''secret''
       = (Inl InvalidLoginCredentials, [])"
proof -
  have h: "\<forall>x\<in>set [exInactive]. email x = toLowerCase ''Ravi@example.com'' \<longrightarrow> \<not> user_isActive x"
    by (simp add: exInactive_def)
  have e: "email exInactive = toLowerCase ''Ravi@example.com''"
    by (simp add: toLowerCase_ravi exInactive_def exRavi_def)
  have c: "exCompare ''secret'' (password exInactive)"
    by (simp add: exCompare_def exInactive_def exRavi_def)
  have n: "findByCredentials exCompare (clockAt 5000) [] ''Ravi@example.com'' ''secret''
      = (Inl InvalidLoginCredentials, [])"
    by (simp add: findByCredentials_def)
  have a: "\<not> user_isActive exInactive" by (simp add: exInactive_def)
  from findByCredentials_inactive [OF h, of exCompare "clockAt 5000" "''secret''"] e c n a
  show ?thesis by simp
qed

end
